theory Spec2Isabelle
  imports Complex_Main "HOL-Library.AList" "HOL-Library.Char_ord" "HOL-Library.List_Lexorder"
    "HOL-Library.Product_Lexorder"
begin

section \<open>Strings\<close>

text \<open>
  A Python \<open>str\<close> is modelled as a \<open>string\<close> whose characters are the code points
  0 to 255 (Latin-1), so \<open>length\<close> counts code points as Python's \<open>len\<close> does.
  \<open>is_space\<close> is \<open>str.isspace\<close> on one character of that range (the characters that
  \<open>str.strip()\<close> removes), \<open>lower_char\<close> is \<open>str.lower\<close> on one character.
\<close>

definition is_space :: "char \<Rightarrow> bool" where
  "is_space c = (let n = (of_char c :: nat) in
     (9 \<le> n \<and> n \<le> 13) \<or> (28 \<le> n \<and> n \<le> 32) \<or> n = 133 \<or> n = 160)"

definition lower_char :: "char \<Rightarrow> char" where
  "lower_char c = (let n = (of_char c :: nat) in
     if (65 \<le> n \<and> n \<le> 90) \<or> (192 \<le> n \<and> n \<le> 214) \<or> (216 \<le> n \<and> n \<le> 222)
     then char_of (n + 32) else c)"

definition lower :: "string \<Rightarrow> string" where
  "lower s = map lower_char s"

definition strip :: "string \<Rightarrow> string" where
  "strip s = rev (dropWhile is_space (rev (dropWhile is_space s)))"

definition startswith :: "string \<Rightarrow> string \<Rightarrow> bool" where
  "startswith s p = (take (length p) s = p)"

section \<open>Domain model (models.py)\<close>

subsection \<open>Tag normalisation\<close>

text \<open>
  \<open>Memory.validate_tags\<close>:
  \<^verbatim>\<open>return [tag.lower().strip() for tag in v if tag.strip()]\<close>
\<close>

definition validate_tags :: "string list \<Rightarrow> string list" where
  "validate_tags v = map (\<lambda>tag. strip (lower tag)) (filter (\<lambda>tag. strip tag \<noteq> []) v)"

subsection \<open>Enumerations\<close>

datatype MemoryType =
    TASK | CODE_PATTERN | PROBLEM | SOLUTION | PROJECT | TECHNOLOGY
  | ERROR | FIX | COMMAND | FILE_CONTEXT | WORKFLOW | GENERAL

fun MemoryType_value :: "MemoryType \<Rightarrow> string" where
  "MemoryType_value TASK = ''task''"
| "MemoryType_value CODE_PATTERN = ''code_pattern''"
| "MemoryType_value PROBLEM = ''problem''"
| "MemoryType_value SOLUTION = ''solution''"
| "MemoryType_value PROJECT = ''project''"
| "MemoryType_value TECHNOLOGY = ''technology''"
| "MemoryType_value ERROR = ''error''"
| "MemoryType_value FIX = ''fix''"
| "MemoryType_value COMMAND = ''command''"
| "MemoryType_value FILE_CONTEXT = ''file_context''"
| "MemoryType_value WORKFLOW = ''workflow''"
| "MemoryType_value GENERAL = ''general''"

definition all_MemoryType :: "MemoryType list" where
  "all_MemoryType = [TASK, CODE_PATTERN, PROBLEM, SOLUTION, PROJECT, TECHNOLOGY,
     ERROR, FIX, COMMAND, FILE_CONTEXT, WORKFLOW, GENERAL]"

text \<open>\<open>MemoryType(s)\<close>: the member whose value is \<open>s\<close>; Python raises \<open>ValueError\<close> when
  there is none.\<close>

definition MemoryType_of :: "string \<Rightarrow> MemoryType option" where
  "MemoryType_of s = find (\<lambda>t. MemoryType_value t = s) all_MemoryType"

datatype RelationshipType =
    CAUSES | TRIGGERS | LEADS_TO | PREVENTS | BREAKS
  | SOLVES | ADDRESSES | ALTERNATIVE_TO | IMPROVES | REPLACES
  | OCCURS_IN | APPLIES_TO | WORKS_WITH | REQUIRES | USED_IN
  | BUILDS_ON | CONTRADICTS | CONFIRMS | GENERALIZES | SPECIALIZES
  | SIMILAR_TO | VARIANT_OF | RELATED_TO | ANALOGY_TO | OPPOSITE_OF
  | FOLLOWS | DEPENDS_ON | ENABLES | BLOCKS | PARALLEL_TO
  | EFFECTIVE_FOR | INEFFECTIVE_FOR | PREFERRED_OVER | DEPRECATED_BY | VALIDATED_BY

fun RelationshipType_value :: "RelationshipType \<Rightarrow> string" where
  "RelationshipType_value CAUSES = ''CAUSES''"
| "RelationshipType_value TRIGGERS = ''TRIGGERS''"
| "RelationshipType_value LEADS_TO = ''LEADS_TO''"
| "RelationshipType_value PREVENTS = ''PREVENTS''"
| "RelationshipType_value BREAKS = ''BREAKS''"
| "RelationshipType_value SOLVES = ''SOLVES''"
| "RelationshipType_value ADDRESSES = ''ADDRESSES''"
| "RelationshipType_value ALTERNATIVE_TO = ''ALTERNATIVE_TO''"
| "RelationshipType_value IMPROVES = ''IMPROVES''"
| "RelationshipType_value REPLACES = ''REPLACES''"
| "RelationshipType_value OCCURS_IN = ''OCCURS_IN''"
| "RelationshipType_value APPLIES_TO = ''APPLIES_TO''"
| "RelationshipType_value WORKS_WITH = ''WORKS_WITH''"
| "RelationshipType_value REQUIRES = ''REQUIRES''"
| "RelationshipType_value USED_IN = ''USED_IN''"
| "RelationshipType_value BUILDS_ON = ''BUILDS_ON''"
| "RelationshipType_value CONTRADICTS = ''CONTRADICTS''"
| "RelationshipType_value CONFIRMS = ''CONFIRMS''"
| "RelationshipType_value GENERALIZES = ''GENERALIZES''"
| "RelationshipType_value SPECIALIZES = ''SPECIALIZES''"
| "RelationshipType_value SIMILAR_TO = ''SIMILAR_TO''"
| "RelationshipType_value VARIANT_OF = ''VARIANT_OF''"
| "RelationshipType_value RELATED_TO = ''RELATED_TO''"
| "RelationshipType_value ANALOGY_TO = ''ANALOGY_TO''"
| "RelationshipType_value OPPOSITE_OF = ''OPPOSITE_OF''"
| "RelationshipType_value FOLLOWS = ''FOLLOWS''"
| "RelationshipType_value DEPENDS_ON = ''DEPENDS_ON''"
| "RelationshipType_value ENABLES = ''ENABLES''"
| "RelationshipType_value BLOCKS = ''BLOCKS''"
| "RelationshipType_value PARALLEL_TO = ''PARALLEL_TO''"
| "RelationshipType_value EFFECTIVE_FOR = ''EFFECTIVE_FOR''"
| "RelationshipType_value INEFFECTIVE_FOR = ''INEFFECTIVE_FOR''"
| "RelationshipType_value PREFERRED_OVER = ''PREFERRED_OVER''"
| "RelationshipType_value DEPRECATED_BY = ''DEPRECATED_BY''"
| "RelationshipType_value VALIDATED_BY = ''VALIDATED_BY''"

definition all_RelationshipType :: "RelationshipType list" where
  "all_RelationshipType = [CAUSES, TRIGGERS, LEADS_TO, PREVENTS, BREAKS,
     SOLVES, ADDRESSES, ALTERNATIVE_TO, IMPROVES, REPLACES,
     OCCURS_IN, APPLIES_TO, WORKS_WITH, REQUIRES, USED_IN,
     BUILDS_ON, CONTRADICTS, CONFIRMS, GENERALIZES, SPECIALIZES,
     SIMILAR_TO, VARIANT_OF, RELATED_TO, ANALOGY_TO, OPPOSITE_OF,
     FOLLOWS, DEPENDS_ON, ENABLES, BLOCKS, PARALLEL_TO,
     EFFECTIVE_FOR, INEFFECTIVE_FOR, PREFERRED_OVER, DEPRECATED_BY, VALIDATED_BY]"

definition RelationshipType_of :: "string \<Rightarrow> RelationshipType option" where
  "RelationshipType_of s = find (\<lambda>t. RelationshipType_value t = s) all_RelationshipType"

subsection \<open>Timestamps (\<open>datetime\<close> of the Python standard library)\<close>

text \<open>
  A naive \<open>datetime\<close>, as \<open>datetime.utcnow()\<close> returns it. Python only ever holds valid
  ones (\<open>datetime_valid\<close>). \<open>isoformat\<close> writes \<open>YYYY-MM-DDTHH:MM:SS\<close>, followed by
  \<open>.ffffff\<close> when the microseconds are not zero. \<open>fromisoformat\<close> reads the shapes
  \<open>YYYY-MM-DD[*HH[:MM[:SS[.fff[fff]]]]]\<close> of plain decimal digits and fails (\<open>None\<close>, for
  the exception Python raises) on every other string; time zone suffixes are not modelled.
\<close>

record datetime =
  year :: nat
  month :: nat
  day :: nat
  hour :: nat
  minute :: nat
  second :: nat
  microsecond :: nat

definition is_leap :: "nat \<Rightarrow> bool" where
  "is_leap y = (y mod 4 = 0 \<and> (y mod 100 \<noteq> 0 \<or> y mod 400 = 0))"

definition days_in_month :: "nat \<Rightarrow> nat \<Rightarrow> nat" where
  "days_in_month y m =
     (if m = 2 then (if is_leap y then 29 else 28)
      else if m = 4 \<or> m = 6 \<or> m = 9 \<or> m = 11 then 30 else 31)"

definition datetime_valid :: "datetime \<Rightarrow> bool" where
  "datetime_valid d =
     (1 \<le> year d \<and> year d \<le> 9999 \<and> 1 \<le> month d \<and> month d \<le> 12
      \<and> 1 \<le> day d \<and> day d \<le> days_in_month (year d) (month d)
      \<and> hour d < 24 \<and> minute d < 60 \<and> second d < 60 \<and> microsecond d < 1000000)"

definition digit_char :: "nat \<Rightarrow> char" where
  "digit_char n = char_of (48 + n)"

fun zpad :: "nat \<Rightarrow> nat \<Rightarrow> string" where
  "zpad 0 n = []"
| "zpad (Suc w) n = zpad w (n div 10) @ [digit_char (n mod 10)]"

definition isoformat :: "datetime \<Rightarrow> string" where
  "isoformat d =
     zpad 4 (year d) @ ''-'' @ zpad 2 (month d) @ ''-'' @ zpad 2 (day d) @ ''T''
     @ zpad 2 (hour d) @ '':'' @ zpad 2 (minute d) @ '':'' @ zpad 2 (second d)
     @ (if microsecond d = 0 then [] else ''.'' @ zpad 6 (microsecond d))"

definition digit_val :: "char \<Rightarrow> nat option" where
  "digit_val c = (let k = (of_char c :: nat) in
     if 48 \<le> k \<and> k \<le> 57 then Some (k - 48) else None)"

fun parse_digits_acc :: "nat \<Rightarrow> string \<Rightarrow> nat option" where
  "parse_digits_acc acc [] = Some acc"
| "parse_digits_acc acc (c # cs) =
     (case digit_val c of None \<Rightarrow> None | Some v \<Rightarrow> parse_digits_acc (10 * acc + v) cs)"

definition parse_digits :: "string \<Rightarrow> nat option" where
  "parse_digits s = (if s = [] then None else parse_digits_acc 0 s)"

definition parse_time :: "string \<Rightarrow> (nat \<times> nat \<times> nat \<times> nat) option" where
  "parse_time t =
     (if t = [] then Some (0, 0, 0, 0)
      else if length t = 2 then
        (case parse_digits t of Some h \<Rightarrow> Some (h, 0, 0, 0) | None \<Rightarrow> None)
      else if length t = 5 \<and> t ! 2 = CHR '':'' then
        (case (parse_digits (take 2 t), parse_digits (drop 3 t)) of
           (Some h, Some mi) \<Rightarrow> Some (h, mi, 0, 0)
         | _ \<Rightarrow> None)
      else if length t = 8 \<and> t ! 2 = CHR '':'' \<and> t ! 5 = CHR '':'' then
        (case (parse_digits (take 2 t), parse_digits (take 2 (drop 3 t)),
               parse_digits (drop 6 t)) of
           (Some h, Some mi, Some s) \<Rightarrow> Some (h, mi, s, 0)
         | _ \<Rightarrow> None)
      else if (length t = 12 \<or> length t = 15)
              \<and> t ! 2 = CHR '':'' \<and> t ! 5 = CHR '':'' \<and> t ! 8 = CHR ''.'' then
        (case (parse_digits (take 2 t), parse_digits (take 2 (drop 3 t)),
               parse_digits (take 2 (drop 6 t)), parse_digits (drop 9 t)) of
           (Some h, Some mi, Some s, Some f) \<Rightarrow>
             Some (h, mi, s, if length t = 12 then f * 1000 else f)
         | _ \<Rightarrow> None)
      else None)"

definition fromisoformat :: "string \<Rightarrow> datetime option" where
  "fromisoformat s =
     (if length s < 10 then None
      else
        (case (parse_digits (take 4 s), parse_digits (take 2 (drop 5 s)),
               parse_digits (take 2 (drop 8 s)), parse_time (drop 11 s)) of
           (Some y, Some mo, Some d, Some (h, mi, sec, us)) \<Rightarrow>
             (let r = \<lparr>year = y, month = mo, day = d, hour = h, minute = mi,
                       second = sec, microsecond = us\<rparr>
              in if s ! 4 = CHR ''-'' \<and> s ! 7 = CHR ''-'' \<and> datetime_valid r
                 then Some r else None)
         | _ \<Rightarrow> None))"

subsection \<open>Property values and dictionaries\<close>

text \<open>
  The values a graph property (a Python value handed to or returned by the driver) can
  take, as the encoder writes them: \<open>None\<close>, a string, a float, an integer, a list of
  strings. Floats are only stored and compared, so they are modelled as reals. A Python
  \<open>dict\<close> with string keys is an association list with distinct keys; assignment
  \<open>d[k] = v\<close> replaces the value in place or appends the key.
\<close>

datatype pval = PNull | PStr string | PFloat real | PInt int | PList "string list"

type_synonym pdict = "(string \<times> pval) list"

text \<open>\<open>d.get(k)\<close> and \<open>d.get(k, default)\<close>.\<close>

definition dict_get :: "pdict \<Rightarrow> string \<Rightarrow> pval" where
  "dict_get d k = (case map_of d k of None \<Rightarrow> PNull | Some v \<Rightarrow> v)"

definition dict_get_default :: "pdict \<Rightarrow> string \<Rightarrow> pval \<Rightarrow> pval" where
  "dict_get_default d k dflt = (case map_of d k of None \<Rightarrow> dflt | Some v \<Rightarrow> v)"

definition dict_set :: "pdict \<Rightarrow> string \<Rightarrow> pval \<Rightarrow> pdict" where
  "dict_set d k v = AList.update k v d"

text \<open>Python's truth value of a property value (\<open>if x:\<close>).\<close>

fun truthy :: "pval \<Rightarrow> bool" where
  "truthy PNull = False"
| "truthy (PStr s) = (s \<noteq> [])"
| "truthy (PFloat x) = (x \<noteq> 0)"
| "truthy (PInt i) = (i \<noteq> 0)"
| "truthy (PList xs) = (xs \<noteq> [])"

text \<open>\<open>sep.join(xs)\<close>.\<close>

fun join :: "string \<Rightarrow> string list \<Rightarrow> string" where
  "join sep [] = []"
| "join sep [x] = x"
| "join sep (x # y # ys) = x @ sep @ join sep (y # ys)"

text \<open>
  \<open>str(value)\<close> of a list of strings and of a dictionary from strings to strings: the
  items' \<open>repr\<close>, separated by a comma and a space, in brackets or braces. \<open>repr\<close> of a
  string quotes it with \<open>'\<close> (with \<open>"\<close> when the string holds a \<open>'\<close> and no \<open>"\<close>), and
  escapes the quote, the backslash, the control characters and the characters that are
  not printable.
\<close>

definition hex_digit :: "nat \<Rightarrow> char" where
  "hex_digit n = (if n < 10 then char_of (48 + n) else char_of (87 + n))"

definition repr_char :: "char \<Rightarrow> char \<Rightarrow> string" where
  "repr_char q c = (let n = (of_char c :: nat) in
     if c = q \<or> n = 92 then [char_of (92 :: nat), c]
     else if n = 9 then [char_of (92 :: nat), CHR ''t'']
     else if n = 10 then [char_of (92 :: nat), CHR ''n'']
     else if n = 13 then [char_of (92 :: nat), CHR ''r'']
     else if n < 32 \<or> (127 \<le> n \<and> n \<le> 160) \<or> n = 173
       then [char_of (92 :: nat), CHR ''x'', hex_digit (n div 16), hex_digit (n mod 16)]
     else [c])"

definition repr_str :: "string \<Rightarrow> string" where
  "repr_str s =
     (let q = (if char_of (39 :: nat) \<in> set s \<and> char_of (34 :: nat) \<notin> set s
               then char_of (34 :: nat) else char_of (39 :: nat))
      in [q] @ concat (map (repr_char q) s) @ [q])"

definition str_list :: "string list \<Rightarrow> string" where
  "str_list xs = ''['' @ join '', '' (map repr_str xs) @ '']''"

definition str_dict :: "(string \<times> string) list \<Rightarrow> string" where
  "str_dict kvs =
     ''{'' @ join '', '' (map (\<lambda>(k, v). repr_str k @ '': '' @ repr_str v) kvs) @ ''}''"

subsection \<open>Errors\<close>

text \<open>
  \<open>ValidationError f\<close> is pydantic's error for the field \<open>f\<close> (the first failing field in
  declaration order); \<open>RuntimeError\<close> and \<open>ValueError\<close> carry their message.
\<close>

datatype error = ValidationError string | RuntimeError string | ValueError string

subsection \<open>\<open>MemoryContext\<close> and \<open>Memory\<close>\<close>

record MemoryContext =
  c_project_path :: "string option"
  c_files_involved :: "string list"
  c_languages :: "string list"
  c_frameworks :: "string list"
  c_technologies :: "string list"
  c_git_commit :: "string option"
  c_git_branch :: "string option"
  c_working_directory :: "string option"
  c_timestamp :: datetime
  c_session_id :: "string option"
  c_user_id :: "string option"
  c_additional_metadata :: "(string \<times> string) list"

record Memory =
  m_id :: "string option"
  m_type :: MemoryType
  m_title :: string
  m_content :: string
  m_summary :: "string option"
  m_tags :: "string list"
  m_context :: "MemoryContext option"
  m_importance :: real
  m_confidence :: real
  m_effectiveness :: "real option"
  m_usage_count :: int
  m_created_at :: datetime
  m_updated_at :: datetime
  m_last_accessed :: "datetime option"

text \<open>
  The keyword arguments of \<open>Memory(...)\<close>. For a field with a default, \<open>None\<close> stands
  for an argument that is not given.
\<close>

record Memory_args =
  a_id :: "string option"
  a_type :: MemoryType
  a_title :: string
  a_content :: string
  a_summary :: "string option"
  a_tags :: "string list option"
  a_context :: "MemoryContext option"
  a_importance :: "real option"
  a_confidence :: "real option"
  a_effectiveness :: "real option"
  a_usage_count :: "int option"
  a_created_at :: "datetime option"
  a_updated_at :: "datetime option"
  a_last_accessed :: "datetime option"

text \<open>\<open>Field(ge=0.0, le=1.0)\<close>.\<close>

definition in_unit :: "real \<Rightarrow> bool" where
  "in_unit x = (0 \<le> x \<and> x \<le> 1)"

text \<open>\<open>Memory.validate_text_fields\<close>: \<^verbatim>\<open>return v.strip()\<close>\<close>

definition validate_text_fields :: "string \<Rightarrow> string" where
  "validate_text_fields v = strip v"

text \<open>
  Construction of a \<open>Memory\<close> (pydantic, version 1 interface). Each field is checked in
  declaration order: first the constraints of its \<open>Field(...)\<close> on the value as given
  (\<open>min_length\<close>, \<open>max_length\<close>, \<open>ge\<close>, \<open>le\<close>), then the class's \<open>@validator\<close> for
  the field, whose result is stored. \<open>t1\<close> and \<open>t2\<close> are the readings of
  \<open>datetime.utcnow()\<close> that the default factories of \<open>created_at\<close> and \<open>updated_at\<close>
  take.
\<close>

definition Memory_new :: "datetime \<Rightarrow> datetime \<Rightarrow> Memory_args \<Rightarrow> error + Memory" where
  "Memory_new t1 t2 a =
     (let importance = (case a_importance a of None \<Rightarrow> 0.5 | Some x \<Rightarrow> x);
          confidence = (case a_confidence a of None \<Rightarrow> 0.8 | Some x \<Rightarrow> x);
          usage_count = (case a_usage_count a of None \<Rightarrow> 0 | Some n \<Rightarrow> n)
      in
      if length (a_title a) < 1 \<or> 200 < length (a_title a)
        then Inl (ValidationError ''title'')
      else if length (a_content a) < 1
        then Inl (ValidationError ''content'')
      else if (case a_summary a of None \<Rightarrow> False | Some s \<Rightarrow> 500 < length s)
        then Inl (ValidationError ''summary'')
      else if \<not> in_unit importance
        then Inl (ValidationError ''importance'')
      else if \<not> in_unit confidence
        then Inl (ValidationError ''confidence'')
      else if (case a_effectiveness a of None \<Rightarrow> False | Some x \<Rightarrow> \<not> in_unit x)
        then Inl (ValidationError ''effectiveness'')
      else if usage_count < 0
        then Inl (ValidationError ''usage_count'')
      else Inr \<lparr>
        m_id = a_id a,
        m_type = a_type a,
        m_title = validate_text_fields (a_title a),
        m_content = validate_text_fields (a_content a),
        m_summary = a_summary a,
        m_tags = validate_tags (case a_tags a of None \<Rightarrow> [] | Some ts \<Rightarrow> ts),
        m_context = a_context a,
        m_importance = importance,
        m_confidence = confidence,
        m_effectiveness = a_effectiveness a,
        m_usage_count = usage_count,
        m_created_at = (case a_created_at a of None \<Rightarrow> t1 | Some d \<Rightarrow> d),
        m_updated_at = (case a_updated_at a of None \<Rightarrow> t2 | Some d \<Rightarrow> d),
        m_last_accessed = a_last_accessed a \<rparr>)"

subsection \<open>\<open>RelationshipProperties\<close> and \<open>Relationship\<close>\<close>

record RelationshipProperties =
  p_strength :: real
  p_confidence :: real
  p_context :: "string option"
  p_evidence_count :: int
  p_success_rate :: "real option"
  p_created_at :: datetime
  p_last_validated :: datetime
  p_validation_count :: int
  p_counter_evidence_count :: int

text \<open>
  \<open>RelationshipProperties(strength=\<dots>, confidence=\<dots>)\<close>, the one form the repository
  uses besides the bare \<open>RelationshipProperties()\<close>: the other fields take their
  defaults. Passing \<open>None\<close> for \<open>strength\<close> or \<open>confidence\<close> (\<open>Some None\<close>) is refused,
  since the fields are not optional. \<open>t1\<close> and \<open>t2\<close> are the clock readings of
  \<open>created_at\<close> and \<open>last_validated\<close>.
\<close>

definition RelationshipProperties_new ::
  "datetime \<Rightarrow> datetime \<Rightarrow> real option option \<Rightarrow> real option option
     \<Rightarrow> error + RelationshipProperties" where
  "RelationshipProperties_new t1 t2 strength confidence =
     (case (case strength of None \<Rightarrow> Some 0.5 | Some v \<Rightarrow> v) of
        None \<Rightarrow> Inl (ValidationError ''strength'')
      | Some s \<Rightarrow>
     (case (case confidence of None \<Rightarrow> Some 0.8 | Some v \<Rightarrow> v) of
        None \<Rightarrow> Inl (ValidationError ''confidence'')
      | Some c \<Rightarrow>
        if \<not> in_unit s then Inl (ValidationError ''strength'')
        else if \<not> in_unit c then Inl (ValidationError ''confidence'')
        else Inr \<lparr>
          p_strength = s,
          p_confidence = c,
          p_context = None,
          p_evidence_count = 1,
          p_success_rate = None,
          p_created_at = t1,
          p_last_validated = t2,
          p_validation_count = 0,
          p_counter_evidence_count = 0 \<rparr>))"

record Relationship =
  r_id :: "string option"
  r_from_memory_id :: string
  r_to_memory_id :: string
  r_type :: RelationshipType
  r_properties :: RelationshipProperties
  r_description :: "string option"
  r_bidirectional :: bool

text \<open>
  \<open>Relationship.validate_memory_ids\<close>:
  \<^verbatim>\<open>
  if not v or not v.strip():
      raise ValueError('Memory ID cannot be empty')
  return v.strip()
  \<close>
\<close>

definition validate_memory_ids :: "string \<Rightarrow> error + string" where
  "validate_memory_ids v =
     (if v = [] \<or> strip v = [] then Inl (ValueError ''Memory ID cannot be empty'')
      else Inr (strip v))"

text \<open>
  \<open>Relationship(from_memory_id=\<dots>, to_memory_id=\<dots>, type=\<dots>, properties=\<dots>)\<close>. An
  id argument may be Python's \<open>None\<close> (\<open>None\<close> here), which the required string field
  refuses; a \<open>ValueError\<close> of the validator becomes the field's validation error.
\<close>

definition Relationship_new ::
  "string option \<Rightarrow> string option \<Rightarrow> RelationshipType \<Rightarrow> RelationshipProperties
     \<Rightarrow> error + Relationship" where
  "Relationship_new from_memory_id to_memory_id rtype properties =
     (case from_memory_id of
        None \<Rightarrow> Inl (ValidationError ''from_memory_id'')
      | Some f \<Rightarrow>
     (case validate_memory_ids f of
        Inl e \<Rightarrow> Inl (ValidationError ''from_memory_id'')
      | Inr f' \<Rightarrow>
     (case to_memory_id of
        None \<Rightarrow> Inl (ValidationError ''to_memory_id'')
      | Some t \<Rightarrow>
     (case validate_memory_ids t of
        Inl e \<Rightarrow> Inl (ValidationError ''to_memory_id'')
      | Inr t' \<Rightarrow>
        Inr \<lparr>
          r_id = None,
          r_from_memory_id = f',
          r_to_memory_id = t',
          r_type = rtype,
          r_properties = properties,
          r_description = None,
          r_bidirectional = False \<rparr>))))"

subsection \<open>\<open>SearchQuery\<close>\<close>

record SearchQuery =
  q_query :: "string option"
  q_memory_types :: "MemoryType list"
  q_tags :: "string list"
  q_project_path :: "string option"
  q_languages :: "string list"
  q_frameworks :: "string list"
  q_min_importance :: "real option"
  q_min_confidence :: "real option"
  q_min_effectiveness :: "real option"
  q_created_after :: "datetime option"
  q_created_before :: "datetime option"
  q_limit :: nat
  q_include_relationships :: bool

section \<open>Graph codec\<close>

subsection \<open>Encoding: \<open>MemoryNode.to_neo4j_properties\<close>\<close>

record MemoryNode =
  mn_memory :: Memory
  mn_node_id :: "int option"
  mn_labels :: "string list"

text \<open>\<open>MemoryNode(memory=memory)\<close>\<close>

definition MemoryNode_new :: "Memory \<Rightarrow> MemoryNode" where
  "MemoryNode_new memory = \<lparr>mn_memory = memory, mn_node_id = None, mn_labels = []\<rparr>"

text \<open>The values of \<open>context.dict()\<close>, in the order of the fields.\<close>

datatype cval =
    CNone | CStr string | CTime datetime | CList "string list"
  | CDict "(string \<times> string) list"

definition opt_cval :: "string option \<Rightarrow> cval" where
  "opt_cval v = (case v of None \<Rightarrow> CNone | Some s \<Rightarrow> CStr s)"

definition context_dict :: "MemoryContext \<Rightarrow> (string \<times> cval) list" where
  "context_dict c =
     [(''project_path'', opt_cval (c_project_path c)),
      (''files_involved'', CList (c_files_involved c)),
      (''languages'', CList (c_languages c)),
      (''frameworks'', CList (c_frameworks c)),
      (''technologies'', CList (c_technologies c)),
      (''git_commit'', opt_cval (c_git_commit c)),
      (''git_branch'', opt_cval (c_git_branch c)),
      (''working_directory'', opt_cval (c_working_directory c)),
      (''timestamp'', CTime (c_timestamp c)),
      (''session_id'', opt_cval (c_session_id c)),
      (''user_id'', opt_cval (c_user_id c)),
      (''additional_metadata'', CDict (c_additional_metadata c))]"

text \<open>
  One turn of the loop over \<open>context_data.items()\<close>:
  \<^verbatim>\<open>
  if value is not None:
      if isinstance(value, datetime):
          props[f'context_{key}'] = value.isoformat()
      elif isinstance(value, (list, dict)):
          props[f'context_{key}'] = str(value) if value else None
      else:
          props[f'context_{key}'] = value
  \<close>
\<close>

fun add_context_item :: "pdict \<Rightarrow> string \<times> cval \<Rightarrow> pdict" where
  "add_context_item props (key, CNone) = props"
| "add_context_item props (key, CTime d) =
     dict_set props (''context_'' @ key) (PStr (isoformat d))"
| "add_context_item props (key, CList xs) =
     dict_set props (''context_'' @ key) (if xs \<noteq> [] then PStr (str_list xs) else PNull)"
| "add_context_item props (key, CDict kvs) =
     dict_set props (''context_'' @ key) (if kvs \<noteq> [] then PStr (str_dict kvs) else PNull)"
| "add_context_item props (key, CStr s) =
     dict_set props (''context_'' @ key) (PStr s)"

definition to_neo4j_properties :: "MemoryNode \<Rightarrow> pdict" where
  "to_neo4j_properties self =
     (let memory = mn_memory self;
          props0 =
            [(''id'', (case m_id memory of None \<Rightarrow> PNull | Some i \<Rightarrow> PStr i)),
             (''type'', PStr (MemoryType_value (m_type memory))),
             (''title'', PStr (m_title memory)),
             (''content'', PStr (m_content memory)),
             (''tags'', PList (m_tags memory)),
             (''importance'', PFloat (m_importance memory)),
             (''confidence'', PFloat (m_confidence memory)),
             (''usage_count'', PInt (m_usage_count memory)),
             (''created_at'', PStr (isoformat (m_created_at memory))),
             (''updated_at'', PStr (isoformat (m_updated_at memory)))];
          props1 = (case m_summary memory of
                      None \<Rightarrow> props0
                    | Some s \<Rightarrow> if s \<noteq> [] then dict_set props0 ''summary'' (PStr s) else props0);
          props2 = (case m_effectiveness memory of
                      None \<Rightarrow> props1
                    | Some x \<Rightarrow> dict_set props1 ''effectiveness'' (PFloat x));
          props3 = (case m_last_accessed memory of
                      None \<Rightarrow> props2
                    | Some d \<Rightarrow> dict_set props2 ''last_accessed'' (PStr (isoformat d)))
      in (case m_context memory of
            None \<Rightarrow> props3
          | Some c \<Rightarrow> foldl add_context_item props3 (context_dict c)))"

subsection \<open>Decoding: \<open>MemoryDatabase._neo4j_to_memory\<close>\<close>

text \<open>
  How pydantic reads a property value into a typed field. A value of the field's own
  type is taken as it is, an integer is taken for a float, and \<open>None\<close> is taken only by
  an optional field; every other value is refused in this model. A list field refuses a
  string. A dictionary field takes what \<open>dict(v)\<close> takes: the empty string, and a list
  of strings of two characters each (a key and a value of one character).
\<close>

definition as_opt_str :: "pval \<Rightarrow> string option option" where
  "as_opt_str v = (case v of PNull \<Rightarrow> Some None | PStr s \<Rightarrow> Some (Some s) | _ \<Rightarrow> None)"

definition as_str :: "pval \<Rightarrow> string option" where
  "as_str v = (case v of PStr s \<Rightarrow> Some s | _ \<Rightarrow> None)"

definition as_float :: "pval \<Rightarrow> real option" where
  "as_float v = (case v of PFloat x \<Rightarrow> Some x | PInt i \<Rightarrow> Some (real_of_int i) | _ \<Rightarrow> None)"

definition as_opt_float :: "pval \<Rightarrow> real option option" where
  "as_opt_float v =
     (case v of PNull \<Rightarrow> Some None | PFloat x \<Rightarrow> Some (Some x)
      | PInt i \<Rightarrow> Some (Some (real_of_int i)) | _ \<Rightarrow> None)"

definition as_int :: "pval \<Rightarrow> int option" where
  "as_int v = (case v of PInt i \<Rightarrow> Some i | _ \<Rightarrow> None)"

definition as_str_list :: "pval \<Rightarrow> string list option" where
  "as_str_list v = (case v of PList xs \<Rightarrow> Some xs | _ \<Rightarrow> None)"

definition as_str_dict :: "pval \<Rightarrow> (string \<times> string) list option" where
  "as_str_dict v =
     (case v of
        PStr s \<Rightarrow> if s = [] then Some [] else None
      | PList xs \<Rightarrow>
          if list_all (\<lambda>x. length x = 2) xs
          then Some (foldl (\<lambda>d x. AList.update [x ! 0] [x ! 1] d) [] xs)
          else None
      | _ \<Rightarrow> None)"

text \<open>\<open>datetime.fromisoformat(v)\<close> of a property value: a \<open>TypeError\<close> unless it is a
  string.\<close>

definition fromisoformat_pval :: "pval \<Rightarrow> datetime option" where
  "fromisoformat_pval v = (case v of PStr s \<Rightarrow> fromisoformat s | _ \<Rightarrow> None)"

text \<open>
  \<^verbatim>\<open>
  for key, value in node_data.items():
      if key.startswith("context_") and value is not None:
          context_key = key[8:]
          context_data[context_key] = value
  \<close>
\<close>

fun collect_context :: "pdict \<Rightarrow> pdict \<Rightarrow> pdict" where
  "collect_context context_data [] = context_data"
| "collect_context context_data ((key, v) # rest) =
     collect_context
       (if startswith key ''context_'' \<and> v \<noteq> PNull
        then dict_set context_data (drop 8 key) v else context_data)
       rest"

text \<open>
  \<open>MemoryContext(**context_data)\<close>, after the entry \<open>timestamp\<close> has been parsed; a
  missing \<open>timestamp\<close> takes the default factory's \<open>datetime.utcnow()\<close>, the reading
  \<open>now\<close>. Keys that name no field are ignored.
\<close>

definition field_or :: "pdict \<Rightarrow> string \<Rightarrow> 'a \<Rightarrow> (pval \<Rightarrow> 'a option) \<Rightarrow> 'a option" where
  "field_or d k dflt conv = (case map_of d k of None \<Rightarrow> Some dflt | Some v \<Rightarrow> conv v)"

definition MemoryContext_of_dict :: "datetime \<Rightarrow> pdict \<Rightarrow> MemoryContext option" where
  "MemoryContext_of_dict now cd =
     (case (field_or cd ''timestamp'' now fromisoformat_pval,
            field_or cd ''project_path'' None as_opt_str,
            field_or cd ''files_involved'' [] as_str_list,
            field_or cd ''languages'' [] as_str_list,
            field_or cd ''frameworks'' [] as_str_list,
            field_or cd ''technologies'' [] as_str_list) of
        (Some ts, Some pp, Some fi, Some la, Some fr, Some te) \<Rightarrow>
          (case (field_or cd ''git_commit'' None as_opt_str,
                 field_or cd ''git_branch'' None as_opt_str,
                 field_or cd ''working_directory'' None as_opt_str,
                 field_or cd ''session_id'' None as_opt_str,
                 field_or cd ''user_id'' None as_opt_str,
                 field_or cd ''additional_metadata'' [] as_str_dict) of
             (Some gc, Some gb, Some wd, Some si, Some ui, Some am) \<Rightarrow>
               Some \<lparr>
                 c_project_path = pp,
                 c_files_involved = fi,
                 c_languages = la,
                 c_frameworks = fr,
                 c_technologies = te,
                 c_git_commit = gc,
                 c_git_branch = gb,
                 c_working_directory = wd,
                 c_timestamp = ts,
                 c_session_id = si,
                 c_user_id = ui,
                 c_additional_metadata = am \<rparr>
           | _ \<Rightarrow> None)
      | _ \<Rightarrow> None)"

text \<open>
  \<open>_neo4j_to_memory\<close>. Every exception inside it is caught and makes the result
  \<open>None\<close>, so each failing step is a \<open>None\<close> branch here. The decoded context is \<open>None\<close>
  when there is no \<open>context_\<close> property, \<open>Some None\<close> when building it fails.
\<close>

definition decode_context :: "datetime \<Rightarrow> pdict \<Rightarrow> MemoryContext option option" where
  "decode_context now node_data =
     (let context_data = collect_context [] node_data
      in if context_data = [] then Some None
         else (case MemoryContext_of_dict now context_data of
                 None \<Rightarrow> None
               | Some c \<Rightarrow> Some (Some c)))"

definition decode_last_accessed :: "pdict \<Rightarrow> datetime option option" where
  "decode_last_accessed node_data =
     (if truthy (dict_get node_data ''last_accessed'')
      then (case fromisoformat_pval (dict_get node_data ''last_accessed'') of
              None \<Rightarrow> None
            | Some d \<Rightarrow> Some (Some d))
      else Some None)"

definition neo4j_to_memory :: "datetime \<Rightarrow> pdict \<Rightarrow> Memory option" where
  "neo4j_to_memory now node_data =
     (case (as_opt_str (dict_get node_data ''id''),
            (case as_str (dict_get node_data ''type'') of
               None \<Rightarrow> None | Some s \<Rightarrow> MemoryType_of s),
            as_str (dict_get node_data ''title''),
            as_str (dict_get node_data ''content''),
            as_opt_str (dict_get node_data ''summary''),
            as_str_list (dict_get_default node_data ''tags'' (PList []))) of
        (Some i, Some ty, Some title, Some content, Some summary, Some tags) \<Rightarrow>
          (case (as_float (dict_get_default node_data ''importance'' (PFloat 0.5)),
                 as_float (dict_get_default node_data ''confidence'' (PFloat 0.8)),
                 as_opt_float (dict_get node_data ''effectiveness''),
                 as_int (dict_get_default node_data ''usage_count'' (PInt 0)),
                 fromisoformat_pval (dict_get node_data ''created_at''),
                 fromisoformat_pval (dict_get node_data ''updated_at'')) of
             (Some imp, Some conf, Some eff, Some uc, Some created, Some updated) \<Rightarrow>
               (case (decode_last_accessed node_data, decode_context now node_data) of
                  (Some la, Some ctx) \<Rightarrow>
                    (case Memory_new now now
                            \<lparr> a_id = i, a_type = ty, a_title = title, a_content = content,
                              a_summary = summary, a_tags = Some tags, a_context = ctx,
                              a_importance = Some imp, a_confidence = Some conf,
                              a_effectiveness = eff, a_usage_count = Some uc,
                              a_created_at = Some created, a_updated_at = Some updated,
                              a_last_accessed = la \<rparr> of
                       Inl e \<Rightarrow> None
                     | Inr memory \<Rightarrow> Some memory)
                | _ \<Rightarrow> None)
           | _ \<Rightarrow> None)
      | _ \<Rightarrow> None)"

section \<open>The graph store\<close>

text \<open>
  The state behind \<open>Neo4jConnection\<close>: the nodes labelled \<open>Memory\<close> and the
  relationships between them, each with the identity the database gives it and its
  property map. Each query the repository sends is modelled by what Cypher computes for
  it on this state. A stored property is never null: writing null removes the key.
\<close>

record node =
  n_ident :: nat
  n_props :: pdict

record rel =
  e_ident :: nat
  e_start :: nat
  e_end :: nat
  e_type :: string
  e_props :: pdict

record graph =
  g_nodes :: "node list"
  g_rels :: "rel list"

text \<open>The node pattern \<open>(m:Memory {id: $id})\<close>.\<close>

definition has_id :: "string \<Rightarrow> node \<Rightarrow> bool" where
  "has_id i n = (map_of (n_props n) ''id'' = Some (PStr i))"

text \<open>\<open>SET m += $properties\<close>.\<close>

definition set_properties :: "pdict \<Rightarrow> pdict \<Rightarrow> pdict" where
  "set_properties old new =
     foldl (\<lambda>d (k, v). if v = PNull then AList.delete k d else AList.update k v d) old new"

definition fresh_node_ident :: "graph \<Rightarrow> nat" where
  "fresh_node_ident g = Suc (foldr max (map n_ident (g_nodes g)) 0)"

definition fresh_rel_ident :: "graph \<Rightarrow> nat" where
  "fresh_rel_ident g = Suc (foldr max (map e_ident (g_rels g)) 0)"

text \<open>
  The query of \<open>store_memory\<close>:
  \<^verbatim>\<open>
  MERGE (m:Memory {id: $id})
  SET m += $properties
  RETURN m.id as id
  \<close>
  The result is the column \<open>id\<close>, one row for each node that \<open>MERGE\<close> matched or
  created.
\<close>

definition merge_memory :: "graph \<Rightarrow> string \<Rightarrow> graph" where
  "merge_memory g i =
     (if list_ex (has_id i) (g_nodes g) then g
      else g\<lparr>g_nodes := g_nodes g
             @ [\<lparr>n_ident = fresh_node_ident g, n_props = [(''id'', PStr i)]\<rparr>]\<rparr>)"

definition run_store_query :: "graph \<Rightarrow> string \<Rightarrow> pdict \<Rightarrow> pval list \<times> graph" where
  "run_store_query g i properties =
     (let g1 = merge_memory g i;
          upd = (\<lambda>n. if has_id i n
                      then n\<lparr>n_props := set_properties (n_props n) properties\<rparr> else n)
      in (map (\<lambda>n. dict_get (n_props (upd n)) ''id'') (filter (has_id i) (g_nodes g1)),
          g1\<lparr>g_nodes := map upd (g_nodes g1)\<rparr>))"

section \<open>Store facade (database.py)\<close>

subsection \<open>\<open>store_memory\<close> and \<open>get_memory\<close>\<close>

text \<open>
  \<^verbatim>\<open>
  if not memory.id:
      memory.id = str(uuid.uuid4())
  memory.updated_at = datetime.utcnow()
  memory_node = MemoryNode(memory=memory)
  properties = memory_node.to_neo4j_properties()
  result = self.connection.execute_write_query(query, {"id": memory.id, "properties": properties})
  if result:
      return result[0]["id"]
  else:
      raise RuntimeError(f"Failed to store memory: {memory.id}")
  \<close>
  \<open>uuid4\<close> is the string that \<open>str(uuid.uuid4())\<close> returns and \<open>utcnow\<close> the reading of the
  clock. The function returns its result or error, the store after the write, and the
  caller's \<open>memory\<close> object as the assignments leave it.
\<close>

definition store_memory ::
  "string \<Rightarrow> datetime \<Rightarrow> graph \<Rightarrow> Memory \<Rightarrow> (error + pval) \<times> graph \<times> Memory" where
  "store_memory uuid4 utcnow g memory =
     (let i = (case m_id memory of
                 None \<Rightarrow> uuid4
               | Some s \<Rightarrow> if s = [] then uuid4 else s);
          memory' = memory\<lparr>m_id := Some i, m_updated_at := utcnow\<rparr>;
          properties = to_neo4j_properties (MemoryNode_new memory')
      in (case run_store_query g i properties of
            (result, g') \<Rightarrow>
              (case result of
                 [] \<Rightarrow> (Inl (RuntimeError (''Failed to store memory: '' @ i)), g', memory')
               | row # _ \<Rightarrow> (Inr row, g', memory'))))"

text \<open>
  \<^verbatim>\<open>
  MATCH (m:Memory {id: $memory_id})
  RETURN m
  \<close>
\<close>

definition get_memory :: "datetime \<Rightarrow> graph \<Rightarrow> string \<Rightarrow> Memory option" where
  "get_memory now g memory_id =
     (case filter (has_id memory_id) (g_nodes g) of
        [] \<Rightarrow> None
      | n # _ \<Rightarrow> neo4j_to_memory now (n_props n))"

subsection \<open>\<open>create_relationship\<close>\<close>

text \<open>
  \<open>props_dict\<close>: \<open>properties.dict()\<close> with the relationship id added and the two
  timestamps replaced by their ISO strings.
\<close>

definition relationship_props_dict :: "RelationshipProperties \<Rightarrow> string \<Rightarrow> pdict" where
  "relationship_props_dict p relationship_id =
     [(''strength'', PFloat (p_strength p)),
      (''confidence'', PFloat (p_confidence p)),
      (''context'', (case p_context p of None \<Rightarrow> PNull | Some s \<Rightarrow> PStr s)),
      (''evidence_count'', PInt (p_evidence_count p)),
      (''success_rate'', (case p_success_rate p of None \<Rightarrow> PNull | Some x \<Rightarrow> PFloat x)),
      (''created_at'', PStr (isoformat (p_created_at p))),
      (''last_validated'', PStr (isoformat (p_last_validated p))),
      (''validation_count'', PInt (p_validation_count p)),
      (''counter_evidence_count'', PInt (p_counter_evidence_count p)),
      (''id'', PStr relationship_id)]"

text \<open>
  \<^verbatim>\<open>
  MATCH (from:Memory {id: $from_id})
  MATCH (to:Memory {id: $to_id})
  CREATE (from)-[r:TYPE $properties]->(to)
  RETURN r.id as id
  \<close>
  One relationship is created, and one row returned, for every pair of a node matching
  \<open>from\<close> and a node matching \<open>to\<close>.
\<close>

definition create_rel :: "string \<Rightarrow> pdict \<Rightarrow> graph \<Rightarrow> node \<times> node \<Rightarrow> graph" where
  "create_rel ty props g ft =
     g\<lparr>g_rels := g_rels g
         @ [\<lparr>e_ident = fresh_rel_ident g, e_start = n_ident (fst ft), e_end = n_ident (snd ft),
             e_type = ty, e_props = filter (\<lambda>(k, v). v \<noteq> PNull) props\<rparr>]\<rparr>"

definition run_create_query ::
  "graph \<Rightarrow> string \<Rightarrow> string \<Rightarrow> string \<Rightarrow> pdict \<Rightarrow> pval list \<times> graph" where
  "run_create_query g from_id to_id ty props =
     (let rows = concat (map (\<lambda>f. map (\<lambda>t. (f, t)) (filter (has_id to_id) (g_nodes g)))
                             (filter (has_id from_id) (g_nodes g)))
      in (map (\<lambda>ft. dict_get props ''id'') rows, foldl (create_rel ty props) g rows))"

text \<open>
  \<open>create_relationship\<close>; \<open>t1\<close> and \<open>t2\<close> are the clock readings that the default
  \<open>RelationshipProperties()\<close> takes when \<open>properties\<close> is \<open>None\<close>.
\<close>

definition create_relationship ::
  "string \<Rightarrow> datetime \<Rightarrow> datetime \<Rightarrow> graph \<Rightarrow> string \<Rightarrow> string \<Rightarrow> RelationshipType
     \<Rightarrow> RelationshipProperties option \<Rightarrow> (error + pval) \<times> graph" where
  "create_relationship uuid4 t1 t2 g from_memory_id to_memory_id relationship_type properties =
     (case (case properties of
              None \<Rightarrow> RelationshipProperties_new t1 t2 None None
            | Some p \<Rightarrow> Inr p) of
        Inl e \<Rightarrow> (Inl e, g)
      | Inr p \<Rightarrow>
          (case run_create_query g from_memory_id to_memory_id
                  (RelationshipType_value relationship_type)
                  (relationship_props_dict p uuid4) of
             (result, g') \<Rightarrow>
               (case result of
                  [] \<Rightarrow> (Inl (RuntimeError (''Failed to create relationship between ''
                                  @ from_memory_id @ '' and '' @ to_memory_id)), g')
                | row # _ \<Rightarrow> (Inr row, g'))))"

subsection \<open>Ordering of property values\<close>

text \<open>
  \<open>ORDER BY\<close> compares property values in Cypher's order: ascending, a list comes
  before a string, a string before a number, and null (a missing property) last;
  numbers compare by value and strings by their characters. \<open>sort_value\<close> is the key
  of that order; lists, which the repository never sorts by, are left in the order in
  which they come. \<open>ORDER BY \<dots> DESC\<close> is the reverse of the ascending order.
\<close>

definition cypher_num :: "pval \<Rightarrow> real option" where
  "cypher_num v = (case v of PFloat x \<Rightarrow> Some x | PInt i \<Rightarrow> Some (real_of_int i) | _ \<Rightarrow> None)"

definition sort_value :: "pval \<Rightarrow> nat \<times> real \<times> string" where
  "sort_value v =
     (case v of
        PList xs \<Rightarrow> (0, 0, [])
      | PStr s \<Rightarrow> (1, 0, s)
      | PFloat x \<Rightarrow> (2, x, [])
      | PInt i \<Rightarrow> (2, real_of_int i, [])
      | PNull \<Rightarrow> (3, 0, []))"

definition order_by_desc :: "('a \<Rightarrow> 'k::linorder) \<Rightarrow> 'a list \<Rightarrow> 'a list" where
  "order_by_desc key rows = rev (sort_key key rows)"

subsection \<open>\<open>search_memories\<close>\<close>

text \<open>
  The conditions that \<open>search_memories\<close> appends to \<open>conditions\<close>, each with the
  parameter it binds; \<open>condition_text\<close> is the string appended.
\<close>

datatype condition =
    QueryContains string
  | TypeIn "string list"
  | TagsAny "string list"
  | ProjectPathEq string
  | MinImportance real
  | MinConfidence real
  | CreatedAfter string
  | CreatedBefore string

fun condition_text :: "condition \<Rightarrow> string" where
  "condition_text (QueryContains q) =
     ''(m.title CONTAINS $query OR m.content CONTAINS $query OR m.summary CONTAINS $query)''"
| "condition_text (TypeIn ts) = ''m.type IN $memory_types''"
| "condition_text (TagsAny ts) = ''ANY(tag IN $tags WHERE tag IN m.tags)''"
| "condition_text (ProjectPathEq p) = ''m.context_project_path = $project_path''"
| "condition_text (MinImportance x) = ''m.importance >= $min_importance''"
| "condition_text (MinConfidence x) = ''m.confidence >= $min_confidence''"
| "condition_text (CreatedAfter d) = ''datetime(m.created_at) >= datetime($created_after)''"
| "condition_text (CreatedBefore d) = ''datetime(m.created_at) <= datetime($created_before)''"

text \<open>
  \<^verbatim>\<open>
  if search_query.query: ...
  if search_query.memory_types: ...
  if search_query.tags: ...
  if search_query.project_path: ...
  if search_query.min_importance is not None: ...
  if search_query.min_confidence is not None: ...
  if search_query.created_after: ...
  if search_query.created_before: ...
  \<close>
\<close>

definition search_conditions :: "SearchQuery \<Rightarrow> condition list" where
  "search_conditions search_query =
     (case q_query search_query of
        None \<Rightarrow> [] | Some s \<Rightarrow> if s \<noteq> [] then [QueryContains s] else [])
     @ (if q_memory_types search_query \<noteq> []
        then [TypeIn (map MemoryType_value (q_memory_types search_query))] else [])
     @ (if q_tags search_query \<noteq> [] then [TagsAny (q_tags search_query)] else [])
     @ (case q_project_path search_query of
          None \<Rightarrow> [] | Some p \<Rightarrow> if p \<noteq> [] then [ProjectPathEq p] else [])
     @ (case q_min_importance search_query of None \<Rightarrow> [] | Some x \<Rightarrow> [MinImportance x])
     @ (case q_min_confidence search_query of None \<Rightarrow> [] | Some x \<Rightarrow> [MinConfidence x])
     @ (case q_created_after search_query of
          None \<Rightarrow> [] | Some d \<Rightarrow> [CreatedAfter (isoformat d)])
     @ (case q_created_before search_query of
          None \<Rightarrow> [] | Some d \<Rightarrow> [CreatedBefore (isoformat d)])"

text \<open>\<^verbatim>\<open>where_clause = " AND ".join(conditions) if conditions else "true"\<close>\<close>

definition where_clause :: "condition list \<Rightarrow> string" where
  "where_clause conditions =
     (if conditions \<noteq> [] then join '' AND '' (map condition_text conditions) else ''true'')"

text \<open>
  What each condition computes on a node's properties. A comparison with a missing
  property is null in Cypher and a row is kept only when the whole \<open>WHERE\<close> clause is
  true, so a condition holds only when its properties are there and of the compared
  type. \<open>datetime(s)\<close> is read with \<open>fromisoformat\<close>, and a string it does not read is
  taken as null.
\<close>

fun contains :: "string \<Rightarrow> string \<Rightarrow> bool" where
  "contains [] q = (q = [])"
| "contains (c # cs) q = (startswith (c # cs) q \<or> contains cs q)"

definition prop_contains :: "pdict \<Rightarrow> string \<Rightarrow> string \<Rightarrow> bool" where
  "prop_contains props k q = (case map_of props k of Some (PStr s) \<Rightarrow> contains s q | _ \<Rightarrow> False)"

definition datetime_key :: "datetime \<Rightarrow> nat \<times> nat \<times> nat \<times> nat \<times> nat \<times> nat \<times> nat" where
  "datetime_key d = (year d, month d, day d, hour d, minute d, second d, microsecond d)"

definition created_at_of :: "pdict \<Rightarrow> datetime option" where
  "created_at_of props =
     (case map_of props ''created_at'' of Some (PStr s) \<Rightarrow> fromisoformat s | _ \<Rightarrow> None)"

fun condition_holds :: "pdict \<Rightarrow> condition \<Rightarrow> bool" where
  "condition_holds props (QueryContains q) =
     (prop_contains props ''title'' q \<or> prop_contains props ''content'' q
      \<or> prop_contains props ''summary'' q)"
| "condition_holds props (TypeIn ts) =
     (case map_of props ''type'' of Some (PStr s) \<Rightarrow> s \<in> set ts | _ \<Rightarrow> False)"
| "condition_holds props (TagsAny ts) =
     (case map_of props ''tags'' of
        Some (PList xs) \<Rightarrow> list_ex (\<lambda>tag. tag \<in> set xs) ts
      | _ \<Rightarrow> False)"
| "condition_holds props (ProjectPathEq p) =
     (map_of props ''context_project_path'' = Some (PStr p))"
| "condition_holds props (MinImportance x) =
     (case cypher_num (dict_get props ''importance'') of Some v \<Rightarrow> x \<le> v | None \<Rightarrow> False)"
| "condition_holds props (MinConfidence x) =
     (case cypher_num (dict_get props ''confidence'') of Some v \<Rightarrow> x \<le> v | None \<Rightarrow> False)"
| "condition_holds props (CreatedAfter s) =
     (case (created_at_of props, fromisoformat s) of
        (Some c, Some d) \<Rightarrow> datetime_key d \<le> datetime_key c
      | _ \<Rightarrow> False)"
| "condition_holds props (CreatedBefore s) =
     (case (created_at_of props, fromisoformat s) of
        (Some c, Some d) \<Rightarrow> datetime_key c \<le> datetime_key d
      | _ \<Rightarrow> False)"

text \<open>
  \<^verbatim>\<open>
  MATCH (m:Memory)
  WHERE {where_clause}
  RETURN m
  ORDER BY m.importance DESC, m.created_at DESC
  LIMIT $limit
  \<close>
\<close>

definition run_search_query :: "graph \<Rightarrow> condition list \<Rightarrow> nat \<Rightarrow> node list" where
  "run_search_query g conditions limit =
     take limit
       (order_by_desc
          (\<lambda>n. (sort_value (dict_get (n_props n) ''importance''),
                 sort_value (dict_get (n_props n) ''created_at'')))
          (filter (\<lambda>n. list_all (condition_holds (n_props n)) conditions) (g_nodes g)))"

text \<open>
  \<^verbatim>\<open>
  memories = []
  for record in result:
      memory = self._neo4j_to_memory(record["m"])
      if memory:
          memories.append(memory)
  return memories
  \<close>
\<close>

definition search_memories :: "datetime \<Rightarrow> graph \<Rightarrow> SearchQuery \<Rightarrow> Memory list" where
  "search_memories now g search_query =
     List.map_filter (\<lambda>n. neo4j_to_memory now (n_props n))
       (run_search_query g (search_conditions search_query) (q_limit search_query))"

subsection \<open>\<open>get_related_memories\<close>\<close>

text \<open>
  \<^verbatim>\<open>
  MATCH (start:Memory {id: $memory_id})
  MATCH (start)-[r{rel_filter}*1..{max_depth}]-(related:Memory)
  WHERE related.id <> start.id
  RETURN DISTINCT related, r[0] as relationship
  ORDER BY r[0].strength DESC, related.importance DESC
  LIMIT 20
  \<close>
  The pattern matches every path of one to \<open>max_depth\<close> relationships that starts at
  \<open>start\<close>, follows each relationship in either direction and uses no relationship
  twice. \<open>paths rels d v used\<close> lists, for each such path from the node \<open>v\<close> that avoids
  the relationships \<open>used\<close>, the node it ends at and its first relationship \<open>r[0]\<close>.
  \<open>max_depth\<close> is a natural number here; with 0 the pattern \<open>*1..0\<close> matches nothing.
\<close>

definition other_end :: "rel \<Rightarrow> nat \<Rightarrow> nat option" where
  "other_end e v =
     (if e_start e = v then Some (e_end e)
      else if e_end e = v then Some (e_start e) else None)"

fun paths :: "rel list \<Rightarrow> nat \<Rightarrow> nat \<Rightarrow> nat list \<Rightarrow> (nat \<times> rel) list" where
  "paths rels 0 v used = []"
| "paths rels (Suc d) v used =
     concat (map (\<lambda>e.
       if e_ident e \<in> set used then []
       else (case other_end e v of
               None \<Rightarrow> []
             | Some w \<Rightarrow>
                 (w, e) # map (\<lambda>(x, r0). (x, e)) (paths rels d w (e_ident e # used))))
       rels)"

text \<open>
  \<^verbatim>\<open>
  rel_filter = ""
  if relationship_types:
      rel_types = "|".join([rt.value for rt in relationship_types])
      rel_filter = f":{rel_types}"
  \<close>
\<close>

definition rel_filter :: "RelationshipType list \<Rightarrow> string" where
  "rel_filter relationship_types =
     (if relationship_types \<noteq> []
      then '':'' @ join ''|'' (map RelationshipType_value relationship_types) else [])"

definition allowed_rels :: "graph \<Rightarrow> RelationshipType list \<Rightarrow> rel list" where
  "allowed_rels g relationship_types =
     (if relationship_types \<noteq> []
      then filter (\<lambda>e. e_type e \<in> set (map RelationshipType_value relationship_types)) (g_rels g)
      else g_rels g)"

text \<open>\<open>related.id <> start.id\<close>, where \<open>start.id\<close> is the string \<open>memory_id\<close>: null for a
  node without an id, true for an id that is no string.\<close>

definition id_differs :: "pval \<Rightarrow> string \<Rightarrow> bool" where
  "id_differs v memory_id = (case v of PNull \<Rightarrow> False | PStr s \<Rightarrow> s \<noteq> memory_id | _ \<Rightarrow> True)"

definition related_matches ::
  "graph \<Rightarrow> string \<Rightarrow> RelationshipType list \<Rightarrow> nat \<Rightarrow> (node \<times> rel) list" where
  "related_matches g memory_id relationship_types max_depth =
     concat (map (\<lambda>start.
       concat (map (\<lambda>(w, r0).
         map (\<lambda>related. (related, r0))
           (filter (\<lambda>related. n_ident related = w
                      \<and> id_differs (dict_get (n_props related) ''id'') memory_id)
              (g_nodes g)))
         (paths (allowed_rels g relationship_types) max_depth (n_ident start) [])))
       (filter (has_id memory_id) (g_nodes g)))"

definition run_related_query ::
  "graph \<Rightarrow> string \<Rightarrow> RelationshipType list \<Rightarrow> nat \<Rightarrow> (node \<times> rel) list" where
  "run_related_query g memory_id relationship_types max_depth =
     take 20
       (order_by_desc
          (\<lambda>(related, r0). (sort_value (dict_get (e_props r0) ''strength''),
                            sort_value (dict_get (n_props related) ''importance'')))
          (remdups (related_matches g memory_id relationship_types max_depth)))"

text \<open>
  The relationship built for one row. \<open>rel_data\<close> is the property map of the row's
  column \<open>relationship\<close>, the first relationship of the path.
  \<^verbatim>\<open>
  rel_data = record.get("relationship", {})
  relationship = Relationship(
      from_memory_id=memory_id,
      to_memory_id=memory.id,
      type=RelationshipType(rel_data.get("type", "RELATED_TO")),
      properties=RelationshipProperties(
          strength=rel_data.get("strength", 0.5),
          confidence=rel_data.get("confidence", 0.8)
      )
  )
  \<close>
  An argument that is \<open>None\<close> or of another type than the field's is refused, as in
  the decoder.
\<close>

definition float_arg :: "string \<Rightarrow> pval \<Rightarrow> error + real option" where
  "float_arg field v =
     (case v of
        PNull \<Rightarrow> Inr None
      | PFloat x \<Rightarrow> Inr (Some x)
      | PInt i \<Rightarrow> Inr (Some (real_of_int i))
      | _ \<Rightarrow> Inl (ValidationError field))"

definition synthesize_relationship ::
  "datetime \<Rightarrow> string \<Rightarrow> Memory \<Rightarrow> pdict \<Rightarrow> error + Relationship" where
  "synthesize_relationship now memory_id memory rel_data =
     (case (case dict_get_default rel_data ''type'' (PStr ''RELATED_TO'') of
              PStr s \<Rightarrow> RelationshipType_of s
            | _ \<Rightarrow> None) of
        None \<Rightarrow> Inl (ValueError ''not a valid RelationshipType'')
      | Some ty \<Rightarrow>
     (case float_arg ''strength'' (dict_get_default rel_data ''strength'' (PFloat 0.5)) of
        Inl e \<Rightarrow> Inl e
      | Inr strength \<Rightarrow>
     (case float_arg ''confidence'' (dict_get_default rel_data ''confidence'' (PFloat 0.8)) of
        Inl e \<Rightarrow> Inl e
      | Inr confidence \<Rightarrow>
     (case RelationshipProperties_new now now (Some strength) (Some confidence) of
        Inl e \<Rightarrow> Inl e
      | Inr properties \<Rightarrow>
          Relationship_new (Some memory_id) (m_id memory) ty properties))))"

text \<open>
  \<^verbatim>\<open>
  related_memories = []
  for record in result:
      memory = self._neo4j_to_memory(record["related"])
      if memory:
          ...
          related_memories.append((memory, relationship))
  return related_memories
  \<close>
  An exception raised while a relationship is built leaves the function.
\<close>

fun collect_related ::
  "datetime \<Rightarrow> string \<Rightarrow> (node \<times> rel) list \<Rightarrow> error + (Memory \<times> Relationship) list" where
  "collect_related now memory_id [] = Inr []"
| "collect_related now memory_id ((related, r0) # rest) =
     (case neo4j_to_memory now (n_props related) of
        None \<Rightarrow> collect_related now memory_id rest
      | Some memory \<Rightarrow>
          (case synthesize_relationship now memory_id memory (e_props r0) of
             Inl e \<Rightarrow> Inl e
           | Inr relationship \<Rightarrow>
               (case collect_related now memory_id rest of
                  Inl e \<Rightarrow> Inl e
                | Inr related_memories \<Rightarrow> Inr ((memory, relationship) # related_memories))))"

definition get_related_memories ::
  "datetime \<Rightarrow> graph \<Rightarrow> string \<Rightarrow> RelationshipType list \<Rightarrow> nat
     \<Rightarrow> error + (Memory \<times> Relationship) list" where
  "get_related_memories now g memory_id relationship_types max_depth =
     collect_related now memory_id
       (run_related_query g memory_id relationship_types max_depth)"

section \<open>Valid memories\<close>

definition memory_valid :: "Memory \<Rightarrow> bool" where
  "memory_valid m =
     (strip (m_title m) = m_title m \<and> 1 \<le> length (m_title m) \<and> length (m_title m) \<le> 200
      \<and> strip (m_content m) = m_content m \<and> 1 \<le> length (m_content m)
      \<and> (case m_summary m of None \<Rightarrow> True | Some s \<Rightarrow> length s \<le> 500)
      \<and> validate_tags (m_tags m) = m_tags m
      \<and> in_unit (m_importance m) \<and> in_unit (m_confidence m)
      \<and> (case m_effectiveness m of None \<Rightarrow> True | Some x \<Rightarrow> in_unit x)
      \<and> 0 \<le> m_usage_count m
      \<and> datetime_valid (m_created_at m) \<and> datetime_valid (m_updated_at m)
      \<and> (case m_last_accessed m of None \<Rightarrow> True | Some d \<Rightarrow> datetime_valid d)
      \<and> (case m_context m of None \<Rightarrow> True | Some c \<Rightarrow> datetime_valid (c_timestamp c)))"

definition context_collections_empty :: "Memory \<Rightarrow> bool" where
  "context_collections_empty m =
     (case m_context m of
        None \<Rightarrow> True
      | Some c \<Rightarrow> c_files_involved c = [] \<and> c_languages c = [] \<and> c_frameworks c = []
                  \<and> c_technologies c = [] \<and> c_additional_metadata c = [])"

definition drop_empty_summary :: "Memory \<Rightarrow> Memory" where
  "drop_empty_summary m = (if m_summary m = Some [] then m\<lparr>m_summary := None\<rparr> else m)"


section \<open>Filter fields of a search query\<close>

text \<open>
  The number of filter fields of a \<open>SearchQuery\<close> that are populated, as the
  specification speaks of them: every field of the query but \<open>limit\<close> and
  \<open>include_relationships\<close>; an optional field is populated when it is set (a string
  when it is set and not empty), a list when it is not empty.
\<close>

definition populated_filter_fields :: "SearchQuery \<Rightarrow> nat" where
  "populated_filter_fields q =
     (if q_query q \<noteq> None \<and> q_query q \<noteq> Some [] then 1 else 0)
     + (if q_memory_types q \<noteq> [] then 1 else 0)
     + (if q_tags q \<noteq> [] then 1 else 0)
     + (if q_project_path q \<noteq> None \<and> q_project_path q \<noteq> Some [] then 1 else 0)
     + (if q_languages q \<noteq> [] then 1 else 0)
     + (if q_frameworks q \<noteq> [] then 1 else 0)
     + (if q_min_importance q \<noteq> None then 1 else 0)
     + (if q_min_confidence q \<noteq> None then 1 else 0)
     + (if q_min_effectiveness q \<noteq> None then 1 else 0)
     + (if q_created_after q \<noteq> None then 1 else 0)
     + (if q_created_before q \<noteq> None then 1 else 0)"

text \<open>The same count over the fields that \<open>search_memories\<close> reads.\<close>

definition implemented_filter_fields :: "SearchQuery \<Rightarrow> nat" where
  "implemented_filter_fields q =
     (if q_query q \<noteq> None \<and> q_query q \<noteq> Some [] then 1 else 0)
     + (if q_memory_types q \<noteq> [] then 1 else 0)
     + (if q_tags q \<noteq> [] then 1 else 0)
     + (if q_project_path q \<noteq> None \<and> q_project_path q \<noteq> Some [] then 1 else 0)
     + (if q_min_importance q \<noteq> None then 1 else 0)
     + (if q_min_confidence q \<noteq> None then 1 else 0)
     + (if q_created_after q \<noteq> None then 1 else 0)
     + (if q_created_before q \<noteq> None then 1 else 0)"

section \<open>Example values\<close>

definition ex_time :: datetime where
  "ex_time = \<lparr>year = 2024, month = 1, day = 2, hour = 3, minute = 4, second = 5,
     microsecond = 0\<rparr>"

definition ex_later :: datetime where
  "ex_later = \<lparr>year = 2024, month = 1, day = 2, hour = 3, minute = 4, second = 6,
     microsecond = 250000\<rparr>"

definition ex_args :: Memory_args where
  "ex_args = \<lparr> a_id = None, a_type = PROBLEM, a_title = ''NPE on null user'',
     a_content = ''...'', a_summary = None, a_tags = None, a_context = None,
     a_importance = None, a_confidence = None, a_effectiveness = None,
     a_usage_count = None, a_created_at = None, a_updated_at = None,
     a_last_accessed = None \<rparr>"

definition ex_blank_args :: Memory_args where
  "ex_blank_args = \<lparr> a_id = None, a_type = PROBLEM, a_title = ''   '',
     a_content = ''...'', a_summary = None, a_tags = None, a_context = None,
     a_importance = None, a_confidence = None, a_effectiveness = None,
     a_usage_count = None, a_created_at = None, a_updated_at = None,
     a_last_accessed = None \<rparr>"

definition ex_context :: MemoryContext where
  "ex_context = \<lparr> c_project_path = Some ''/srv/app'', c_files_involved = [],
     c_languages = [], c_frameworks = [], c_technologies = [], c_git_commit = None,
     c_git_branch = None, c_working_directory = None, c_timestamp = ex_time,
     c_session_id = None, c_user_id = None, c_additional_metadata = [] \<rparr>"

definition ex_memory :: "string option \<Rightarrow> string option \<Rightarrow> MemoryContext option \<Rightarrow> Memory" where
  "ex_memory i summary ctx = \<lparr> m_id = i, m_type = PROBLEM, m_title = ''NPE on null user'',
     m_content = ''...'', m_summary = summary, m_tags = [], m_context = ctx,
     m_importance = 0.5, m_confidence = 0.8, m_effectiveness = None, m_usage_count = 0,
     m_created_at = ex_time, m_updated_at = ex_time, m_last_accessed = None \<rparr>"


definition ex_empty_graph :: graph where
  "ex_empty_graph = \<lparr>g_nodes = [], g_rels = []\<rparr>"

definition ex_node :: "nat \<Rightarrow> string \<Rightarrow> node" where
  "ex_node k i = \<lparr>n_ident = k,
     n_props = to_neo4j_properties (MemoryNode_new (ex_memory (Some i) None None))\<rparr>"


definition ex_query :: SearchQuery where
  "ex_query = \<lparr> q_query = None, q_memory_types = [], q_tags = [], q_project_path = None,
     q_languages = [], q_frameworks = [], q_min_importance = None, q_min_confidence = None,
     q_min_effectiveness = None, q_created_after = None, q_created_before = None,
     q_limit = 20, q_include_relationships = True \<rparr>"


definition mem_node :: "nat \<Rightarrow> Memory \<Rightarrow> node" where
  "mem_node k m = \<lparr>n_ident = k, n_props = to_neo4j_properties (MemoryNode_new m)\<rparr>"

definition ex_memory_imp :: "string \<Rightarrow> real \<Rightarrow> Memory" where
  "ex_memory_imp i x = (ex_memory (Some i) None None)\<lparr>m_importance := x\<rparr>"

definition ex_search_graph :: graph where
  "ex_search_graph =
     \<lparr>g_nodes = [mem_node 1 (ex_memory_imp ''a'' 0.5), mem_node 2 (ex_memory_imp ''b'' 0.95)],
      g_rels = []\<rparr>"

section \<open>Properties of the string functions\<close>

lemma is_space_lower_char [simp]: "is_space (lower_char c) = is_space c"
  unfolding is_space_def lower_char_def Let_def by auto

lemma lower_char_idem [simp]: "lower_char (lower_char c) = lower_char c"
  unfolding lower_char_def Let_def by auto

lemma dropWhile_hd: "ys \<noteq> [] \<Longrightarrow> \<not> P (hd ys) \<Longrightarrow> dropWhile P ys = ys"
  by (cases ys) auto

lemma strip_fixed:
  assumes "xs = [] \<or> (\<not> is_space (hd xs) \<and> \<not> is_space (last xs))"
  shows "strip xs = xs"
proof (cases xs)
  case Nil
  then show ?thesis by (simp add: strip_def)
next
  case (Cons a as)
  with assms have h: "\<not> is_space (hd xs)" and l: "\<not> is_space (last xs)" by auto
  have 1: "dropWhile is_space xs = xs" using h Cons by simp
  have "rev xs \<noteq> []" using Cons by simp
  moreover have "hd (rev xs) = last xs" using Cons by (simp add: hd_rev)
  ultimately have 2: "dropWhile is_space (rev xs) = rev xs"
    using l by (simp add: dropWhile_hd)
  show ?thesis by (simp add: strip_def 1 2)
qed

lemma rstrip_prefix: "\<exists>zs. xs = rev (dropWhile P (rev xs)) @ zs"
proof -
  have "rev xs = takeWhile P (rev xs) @ dropWhile P (rev xs)" by simp
  then have "xs = rev (dropWhile P (rev xs)) @ rev (takeWhile P (rev xs))"
    by (metis rev_append rev_rev_ident)
  then show ?thesis by blast
qed

lemma strip_ends:
  "strip s = [] \<or> (\<not> is_space (hd (strip s)) \<and> \<not> is_space (last (strip s)))"
proof (cases "strip s = []")
  case True
  then show ?thesis by simp
next
  case False
  define u where "u = dropWhile is_space s"
  define d where "d = dropWhile is_space (rev u)"
  have st: "strip s = rev d" by (simp add: strip_def u_def d_def)
  have dne: "d \<noteq> []" using False st by simp
  have "\<not> is_space (hd d)" using dne unfolding d_def by (rule hd_dropWhile)
  then have l: "\<not> is_space (last (strip s))" using dne st by (simp add: last_rev)
  obtain zs where z: "u = rev d @ zs" using rstrip_prefix[of u is_space] d_def by blast
  have une: "u \<noteq> []" using z dne by simp
  have "\<not> is_space (hd u)" using une unfolding u_def by (rule hd_dropWhile)
  moreover have "hd u = hd (rev d)" using z dne by simp
  ultimately show ?thesis using l st by simp
qed

lemma strip_strip [simp]: "strip (strip s) = strip s"
  by (rule strip_fixed) (rule strip_ends)

lemma strip_lower: "strip (lower s) = lower (strip s)"
  by (simp add: strip_def lower_def dropWhile_map rev_map comp_def)

lemma lower_lower [simp]: "lower (lower s) = lower s"
  by (simp add: lower_def)

lemma lower_Nil_iff [simp]: "lower s = [] \<longleftrightarrow> s = []"
  by (simp add: lower_def)

lemma norm_tag_idem: "strip (lower (strip (lower t))) = strip (lower t)"
  by (simp add: strip_lower)

lemma filter_validate_tags:
  "filter (\<lambda>tag. strip tag \<noteq> []) (validate_tags v) = validate_tags v"
  unfolding validate_tags_def by (induction v) (auto simp: strip_lower)

section \<open>Timestamps: reading back what was written\<close>


lemma length_zpad [simp]: "length (zpad w n) = w"
  by (induction w arbitrary: n) auto

lemma digit_val_digit_char [simp]: "n < 10 \<Longrightarrow> digit_val (digit_char n) = Some n"
  by (simp add: digit_val_def digit_char_def)

lemma parse_digits_acc_append:
  "parse_digits_acc acc (xs @ ys) =
     (case parse_digits_acc acc xs of None \<Rightarrow> None | Some a \<Rightarrow> parse_digits_acc a ys)"
  by (induction xs arbitrary: acc) (auto split: option.splits)

lemma parse_digits_acc_zpad:
  "n < 10 ^ w \<Longrightarrow> parse_digits_acc acc (zpad w n) = Some (acc * 10 ^ w + n)"
proof (induction w arbitrary: n)
  case 0
  then show ?case by simp
next
  case (Suc w)
  have "n div 10 < 10 ^ w" using Suc.prems by (simp add: less_mult_imp_div_less)
  then have "parse_digits_acc acc (zpad w (n div 10)) = Some (acc * 10 ^ w + n div 10)"
    by (rule Suc.IH)
  then show ?case
    by (simp add: parse_digits_acc_append algebra_simps)
qed

lemma parse_digits_zpad: "0 < w \<Longrightarrow> n < 10 ^ w \<Longrightarrow> parse_digits (zpad w n) = Some n"
proof -
  assume w: "0 < w" and n: "n < 10 ^ w"
  have "length (zpad w n) = w" by simp
  with w have "zpad w n \<noteq> []" by (cases "zpad w n") auto
  then show ?thesis using parse_digits_acc_zpad[OF n, of 0] by (simp add: parse_digits_def)
qed

lemma parse_time_isoformat:
  assumes "h < 100" "mi < 100" "s < 100" "us < 1000000"
  shows "parse_time (zpad 2 h @ '':'' @ zpad 2 mi @ '':'' @ zpad 2 s
           @ (if us = 0 then [] else ''.'' @ zpad 6 us)) = Some (h, mi, s, us)"
proof -
  have ph: "parse_digits (zpad 2 h) = Some h" using assms by (simp add: parse_digits_zpad)
  have pm: "parse_digits (zpad 2 mi) = Some mi" using assms by (simp add: parse_digits_zpad)
  have ps: "parse_digits (zpad 2 s) = Some s" using assms by (simp add: parse_digits_zpad)
  have pu: "parse_digits (zpad 6 us) = Some us" using assms by (simp add: parse_digits_zpad)
  show ?thesis
    by (simp add: parse_time_def nth_append ph pm ps pu)
qed

lemma fromisoformat_isoformat:
  assumes "datetime_valid d"
  shows "fromisoformat (isoformat d) = Some d"
proof -
  have b: "year d < 10 ^ 4" "month d < 10 ^ 2" "day d < 10 ^ 2"
    "hour d < 100" "minute d < 100" "second d < 100" "microsecond d < 1000000"
    using assms by (auto simp: datetime_valid_def days_in_month_def split: if_splits)
  have py: "parse_digits (zpad 4 (year d)) = Some (year d)"
    using b by (simp add: parse_digits_zpad)
  have pm: "parse_digits (zpad 2 (month d)) = Some (month d)"
    using b by (simp add: parse_digits_zpad)
  have pd: "parse_digits (zpad 2 (day d)) = Some (day d)"
    using b by (simp add: parse_digits_zpad)
  note pt = parse_time_isoformat[OF b(4) b(5) b(6) b(7)]
  define t where "t = zpad 2 (hour d) @ '':'' @ zpad 2 (minute d) @ '':'' @ zpad 2 (second d)
           @ (if microsecond d = 0 then [] else ''.'' @ zpad 6 (microsecond d))"
  have iso: "isoformat d
      = zpad 4 (year d) @ ''-'' @ zpad 2 (month d) @ ''-'' @ zpad 2 (day d) @ ''T'' @ t"
    by (simp add: isoformat_def t_def)
  have pt': "parse_time t = Some (hour d, minute d, second d, microsecond d)"
    using pt by (simp add: t_def)
  have r: "\<lparr>year = year d, month = month d, day = day d, hour = hour d, minute = minute d,
            second = second d, microsecond = microsecond d\<rparr> = d"
    by (cases d) simp
  show ?thesis
    unfolding iso fromisoformat_def
    using assms by (simp add: nth_append py pm pd pt' r Let_def)
qed

lemma isoformat_not_Nil [simp]: "isoformat d \<noteq> []"
  using arg_cong[where f = length, of "isoformat d" "[]"]
  by (auto simp: isoformat_def)

section \<open>Dictionaries\<close>

definition nn :: "pdict \<Rightarrow> string \<Rightarrow> pval option" where
  "nn d k = (case map_of d k of Some PNull \<Rightarrow> None | x \<Rightarrow> x)"

lemma nn_Some_iff: "nn d k = Some v \<longleftrightarrow> map_of d k = Some v \<and> v \<noteq> PNull"
  by (auto simp: nn_def split: option.splits pval.splits)

lemma nn_None_iff: "nn d k = None \<longleftrightarrow> map_of d k = None \<or> map_of d k = Some PNull"
  by (auto simp: nn_def split: option.splits pval.splits)

lemma dict_get_nn: "dict_get d k = (case nn d k of None \<Rightarrow> PNull | Some v \<Rightarrow> v)"
  by (auto simp: dict_get_def nn_def split: option.splits pval.splits)

lemma dict_get_default_nn:
  "nn d k = Some v \<Longrightarrow> dict_get_default d k dflt = v"
  by (simp add: dict_get_default_def nn_Some_iff)

lemma map_of_dict_set [simp]: "map_of (dict_set d k v) = (map_of d)(k \<mapsto> v)"
  by (simp add: dict_set_def update_conv')

lemma distinct_dict_set [simp]:
  "distinct (map fst d) \<Longrightarrow> distinct (map fst (dict_set d k v))"
  by (simp add: dict_set_def distinct_update)

lemma startswith_context: "startswith key ''context_'' \<longleftrightarrow> key = ''context_'' @ drop 8 key"
proof
  have l: "length ''context_'' = 8" by simp
  assume "startswith key ''context_''"
  then have "take 8 key = ''context_''" unfolding startswith_def l .
  then have "take 8 key @ drop 8 key = ''context_'' @ drop 8 key" by simp
  then show "key = ''context_'' @ drop 8 key" by simp
next
  assume a: "key = ''context_'' @ drop 8 key"
  have l: "length ''context_'' = 8" by simp
  have "take 8 (''context_'' @ drop 8 key) = ''context_''" by simp
  with a show "startswith key ''context_''" unfolding startswith_def l by simp
qed

lemma map_of_collect_context:
  "distinct (map fst d) \<Longrightarrow>
   map_of (collect_context acc d) k =
     (case nn d (''context_'' @ k) of None \<Rightarrow> map_of acc k | Some v \<Rightarrow> Some v)"
proof (induction d arbitrary: acc)
  case Nil
  then show ?case by (simp add: nn_def)
next
  case (Cons kv d)
  obtain key v where kv: "kv = (key, v)" by (cases kv)
  have dist: "distinct (map fst d)" and notin: "key \<notin> fst ` set d"
    using Cons.prems kv by auto
  have none: "map_of d key = None" using notin by (simp add: map_of_eq_None_iff)
  show ?case
  proof (cases "startswith key ''context_'' \<and> v \<noteq> PNull")
    case True
    then have key: "key = ''context_'' @ drop 8 key" by (simp add: startswith_context)
    show ?thesis
    proof (cases "k = drop 8 key")
      case True
      with key have kk: "''context_'' @ k = key" by simp
      have "nn ((key, v) # d) key = Some v"
        using \<open>startswith key ''context_'' \<and> v \<noteq> PNull\<close> by (simp add: nn_def split: pval.splits)
      moreover have "nn d key = None" using none by (simp add: nn_def)
      ultimately show ?thesis
        using Cons.IH[OF dist, of "dict_set acc (drop 8 key) v"] kv True
          \<open>startswith key ''context_'' \<and> v \<noteq> PNull\<close> kk
        by simp
    next
      case False
      then have ne: "''context_'' @ k \<noteq> key" using key by auto
      then have "nn ((key, v) # d) (''context_'' @ k) = nn d (''context_'' @ k)"
        by (simp add: nn_def)
      then show ?thesis
        using Cons.IH[OF dist, of "dict_set acc (drop 8 key) v"] kv False
          \<open>startswith key ''context_'' \<and> v \<noteq> PNull\<close>
        by (simp split: option.splits)
    qed
  next
    case False
    have "nn ((key, v) # d) (''context_'' @ k) = nn d (''context_'' @ k)"
    proof (cases "''context_'' @ k = key")
      case True
      then have "startswith key ''context_''" by (auto simp: startswith_def)
      with False have "v = PNull" by simp
      then show ?thesis using True none by (simp add: nn_def)
    next
      case False
      then show ?thesis by (simp add: nn_def)
    qed
    moreover have "collect_context acc (kv # d) = collect_context acc d"
      using kv False by auto
    ultimately show ?thesis
      using Cons.IH[OF dist, of acc] kv by simp
  qed
qed

lemma collect_context_Nil_iff:
  assumes "distinct (map fst d)"
  shows "collect_context [] d = [] \<longleftrightarrow> (\<forall>k. nn d (''context_'' @ k) = None)"
proof -
  have "collect_context [] d = [] \<longleftrightarrow> map_of (collect_context [] d) = Map.empty"
    by (simp add: map_of_eq_empty_iff)
  also have "\<dots> \<longleftrightarrow> (\<forall>k. map_of (collect_context [] d) k = None)"
    by (auto simp del: map_of_eq_empty_iff simp: fun_eq_iff)
  also have "\<dots> \<longleftrightarrow> (\<forall>k. nn d (''context_'' @ k) = None)"
    by (simp add: map_of_collect_context[OF assms] split: option.splits)
  finally show ?thesis .
qed

section \<open>The encoder\<close>

fun flatten_cval :: "cval \<Rightarrow> pval option" where
  "flatten_cval CNone = None"
| "flatten_cval (CStr s) = Some (PStr s)"
| "flatten_cval (CTime d) = Some (PStr (isoformat d))"
| "flatten_cval (CList xs) = Some (if xs \<noteq> [] then PStr (str_list xs) else PNull)"
| "flatten_cval (CDict kvs) = Some (if kvs \<noteq> [] then PStr (str_dict kvs) else PNull)"

lemma flatten_opt_cval [simp]: "flatten_cval (opt_cval x) = map_option PStr x"
  by (cases x) (simp_all add: opt_cval_def)

lemma add_context_item_lookup:
  "map_of (add_context_item props (k, v)) k' =
     (if k' = ''context_'' @ k
      then (case flatten_cval v of None \<Rightarrow> map_of props k' | Some pv \<Rightarrow> Some pv)
      else map_of props k')"
  by (cases v) auto

lemma distinct_add_context_item:
  "distinct (map fst props) \<Longrightarrow> distinct (map fst (add_context_item props kv))"
  by (cases kv; cases "snd kv") auto

lemma distinct_foldl_add_context_item:
  "distinct (map fst props) \<Longrightarrow> distinct (map fst (foldl add_context_item props kvs))"
  by (induction kvs arbitrary: props) (auto simp: distinct_add_context_item)

lemma distinct_to_neo4j_properties: "distinct (map fst (to_neo4j_properties mn))"
  unfolding to_neo4j_properties_def Let_def
  by (auto split: option.splits intro!: distinct_foldl_add_context_item distinct_dict_set)

lemmas enc_simps = to_neo4j_properties_def Let_def MemoryNode_new_def context_dict_def
  add_context_item_lookup

lemma lookup_foldl_other:
  "\<not> startswith k ''context_'' \<Longrightarrow>
   map_of (foldl add_context_item P kvs) k = map_of P k"
proof (induction kvs arbitrary: P)
  case Nil
  then show ?case by simp
next
  case (Cons kv kvs)
  obtain a b where kv: "kv = (a, b)" by (cases kv)
  have "k \<noteq> ''context_'' @ a" using Cons.prems by (auto simp: startswith_def)
  then show ?case using Cons kv by (simp add: add_context_item_lookup)
qed

definition optional_props :: "Memory \<Rightarrow> pdict" where
  "optional_props memory =
     (let props0 =
            [(''id'', (case m_id memory of None \<Rightarrow> PNull | Some i \<Rightarrow> PStr i)),
             (''type'', PStr (MemoryType_value (m_type memory))),
             (''title'', PStr (m_title memory)),
             (''content'', PStr (m_content memory)),
             (''tags'', PList (m_tags memory)),
             (''importance'', PFloat (m_importance memory)),
             (''confidence'', PFloat (m_confidence memory)),
             (''usage_count'', PInt (m_usage_count memory)),
             (''created_at'', PStr (isoformat (m_created_at memory))),
             (''updated_at'', PStr (isoformat (m_updated_at memory)))];
          props1 = (case m_summary memory of
                      None \<Rightarrow> props0
                    | Some s \<Rightarrow> if s \<noteq> [] then dict_set props0 ''summary'' (PStr s) else props0);
          props2 = (case m_effectiveness memory of
                      None \<Rightarrow> props1
                    | Some x \<Rightarrow> dict_set props1 ''effectiveness'' (PFloat x))
      in (case m_last_accessed memory of
            None \<Rightarrow> props2
          | Some d \<Rightarrow> dict_set props2 ''last_accessed'' (PStr (isoformat d))))"

lemma to_neo4j_properties_eq:
  "to_neo4j_properties (MemoryNode_new m) =
     (case m_context m of
        None \<Rightarrow> optional_props m
      | Some c \<Rightarrow> foldl add_context_item (optional_props m) (context_dict c))"
  unfolding to_neo4j_properties_def optional_props_def MemoryNode_new_def
  by (simp only: Let_def MemoryNode.select_convs)

lemma optional_props_base:
  shows "map_of (optional_props m) ''id''
           = Some (case m_id m of None \<Rightarrow> PNull | Some i \<Rightarrow> PStr i)"
    and "map_of (optional_props m) ''type'' = Some (PStr (MemoryType_value (m_type m)))"
    and "map_of (optional_props m) ''title'' = Some (PStr (m_title m))"
    and "map_of (optional_props m) ''content'' = Some (PStr (m_content m))"
    and "map_of (optional_props m) ''tags'' = Some (PList (m_tags m))"
    and "map_of (optional_props m) ''importance'' = Some (PFloat (m_importance m))"
    and "map_of (optional_props m) ''confidence'' = Some (PFloat (m_confidence m))"
    and "map_of (optional_props m) ''usage_count'' = Some (PInt (m_usage_count m))"
    and "map_of (optional_props m) ''created_at'' = Some (PStr (isoformat (m_created_at m)))"
    and "map_of (optional_props m) ''updated_at'' = Some (PStr (isoformat (m_updated_at m)))"
  unfolding optional_props_def Let_def
  by ((cases "m_summary m"; cases "m_effectiveness m"; cases "m_last_accessed m";
       simp del: map_of_eq_Some_iff)+)

lemma optional_props_optional:
  shows "map_of (optional_props m) ''summary''
           = (case m_summary m of None \<Rightarrow> None
              | Some s \<Rightarrow> if s \<noteq> [] then Some (PStr s) else None)"
    and "map_of (optional_props m) ''effectiveness'' = map_option PFloat (m_effectiveness m)"
    and "map_of (optional_props m) ''last_accessed''
           = map_option (\<lambda>d. PStr (isoformat d)) (m_last_accessed m)"
  unfolding optional_props_def Let_def
  by ((cases "m_summary m"; cases "m_effectiveness m"; cases "m_last_accessed m";
       simp del: map_of_eq_Some_iff)+)

lemma optional_props_no_context:
  "map_of (optional_props m) (''context_'' @ k) = None"
  unfolding optional_props_def Let_def
  by (cases "m_summary m"; cases "m_effectiveness m"; cases "m_last_accessed m";
      simp del: map_of_eq_Some_iff)

lemma foldl_context_lookup:
  shows "map_of (foldl add_context_item P (context_dict c)) ''context_project_path''
           = (case c_project_path c of None \<Rightarrow> map_of P ''context_project_path''
              | Some s \<Rightarrow> Some (PStr s))"
    and "map_of (foldl add_context_item P (context_dict c)) ''context_files_involved''
           = Some (if c_files_involved c \<noteq> [] then PStr (str_list (c_files_involved c)) else PNull)"
    and "map_of (foldl add_context_item P (context_dict c)) ''context_languages''
           = Some (if c_languages c \<noteq> [] then PStr (str_list (c_languages c)) else PNull)"
    and "map_of (foldl add_context_item P (context_dict c)) ''context_frameworks''
           = Some (if c_frameworks c \<noteq> [] then PStr (str_list (c_frameworks c)) else PNull)"
    and "map_of (foldl add_context_item P (context_dict c)) ''context_technologies''
           = Some (if c_technologies c \<noteq> [] then PStr (str_list (c_technologies c)) else PNull)"
    and "map_of (foldl add_context_item P (context_dict c)) ''context_git_commit''
           = (case c_git_commit c of None \<Rightarrow> map_of P ''context_git_commit''
              | Some s \<Rightarrow> Some (PStr s))"
    and "map_of (foldl add_context_item P (context_dict c)) ''context_git_branch''
           = (case c_git_branch c of None \<Rightarrow> map_of P ''context_git_branch''
              | Some s \<Rightarrow> Some (PStr s))"
    and "map_of (foldl add_context_item P (context_dict c)) ''context_working_directory''
           = (case c_working_directory c of None \<Rightarrow> map_of P ''context_working_directory''
              | Some s \<Rightarrow> Some (PStr s))"
    and "map_of (foldl add_context_item P (context_dict c)) ''context_timestamp''
           = Some (PStr (isoformat (c_timestamp c)))"
    and "map_of (foldl add_context_item P (context_dict c)) ''context_session_id''
           = (case c_session_id c of None \<Rightarrow> map_of P ''context_session_id''
              | Some s \<Rightarrow> Some (PStr s))"
    and "map_of (foldl add_context_item P (context_dict c)) ''context_user_id''
           = (case c_user_id c of None \<Rightarrow> map_of P ''context_user_id''
              | Some s \<Rightarrow> Some (PStr s))"
    and "map_of (foldl add_context_item P (context_dict c)) ''context_additional_metadata''
           = Some (if c_additional_metadata c \<noteq> []
                   then PStr (str_dict (c_additional_metadata c)) else PNull)"
  by (simp_all add: context_dict_def add_context_item_lookup split: option.splits)

lemma ctx_key: "''context_'' @ k = CHR ''c'' # CHR ''o'' # CHR ''n'' # CHR ''t'' # CHR ''e'' # CHR ''x'' # CHR ''t'' # CHR ''_'' # k"
  by simp

lemma to_neo4j_context:
  assumes "m_context m = Some c"
  shows "map_of (to_neo4j_properties (MemoryNode_new m)) ''context_project_path''
           = map_option PStr (c_project_path c)"
    and "map_of (to_neo4j_properties (MemoryNode_new m)) ''context_files_involved''
           = Some (if c_files_involved c \<noteq> [] then PStr (str_list (c_files_involved c)) else PNull)"
    and "map_of (to_neo4j_properties (MemoryNode_new m)) ''context_languages''
           = Some (if c_languages c \<noteq> [] then PStr (str_list (c_languages c)) else PNull)"
    and "map_of (to_neo4j_properties (MemoryNode_new m)) ''context_frameworks''
           = Some (if c_frameworks c \<noteq> [] then PStr (str_list (c_frameworks c)) else PNull)"
    and "map_of (to_neo4j_properties (MemoryNode_new m)) ''context_technologies''
           = Some (if c_technologies c \<noteq> [] then PStr (str_list (c_technologies c)) else PNull)"
    and "map_of (to_neo4j_properties (MemoryNode_new m)) ''context_git_commit''
           = map_option PStr (c_git_commit c)"
    and "map_of (to_neo4j_properties (MemoryNode_new m)) ''context_git_branch''
           = map_option PStr (c_git_branch c)"
    and "map_of (to_neo4j_properties (MemoryNode_new m)) ''context_working_directory''
           = map_option PStr (c_working_directory c)"
    and "map_of (to_neo4j_properties (MemoryNode_new m)) ''context_timestamp''
           = Some (PStr (isoformat (c_timestamp c)))"
    and "map_of (to_neo4j_properties (MemoryNode_new m)) ''context_session_id''
           = map_option PStr (c_session_id c)"
    and "map_of (to_neo4j_properties (MemoryNode_new m)) ''context_user_id''
           = map_option PStr (c_user_id c)"
    and "map_of (to_neo4j_properties (MemoryNode_new m)) ''context_additional_metadata''
           = Some (if c_additional_metadata c \<noteq> []
                   then PStr (str_dict (c_additional_metadata c)) else PNull)"
  using assms optional_props_no_context[of m]
  by (simp_all add: to_neo4j_properties_eq foldl_context_lookup split: option.splits)

lemma to_neo4j_base:
  shows "map_of (to_neo4j_properties (MemoryNode_new m)) ''id''
           = Some (case m_id m of None \<Rightarrow> PNull | Some i \<Rightarrow> PStr i)"
    and "map_of (to_neo4j_properties (MemoryNode_new m)) ''type''
           = Some (PStr (MemoryType_value (m_type m)))"
    and "map_of (to_neo4j_properties (MemoryNode_new m)) ''title'' = Some (PStr (m_title m))"
    and "map_of (to_neo4j_properties (MemoryNode_new m)) ''content'' = Some (PStr (m_content m))"
    and "map_of (to_neo4j_properties (MemoryNode_new m)) ''tags'' = Some (PList (m_tags m))"
    and "map_of (to_neo4j_properties (MemoryNode_new m)) ''importance''
           = Some (PFloat (m_importance m))"
    and "map_of (to_neo4j_properties (MemoryNode_new m)) ''confidence''
           = Some (PFloat (m_confidence m))"
    and "map_of (to_neo4j_properties (MemoryNode_new m)) ''usage_count''
           = Some (PInt (m_usage_count m))"
    and "map_of (to_neo4j_properties (MemoryNode_new m)) ''created_at''
           = Some (PStr (isoformat (m_created_at m)))"
    and "map_of (to_neo4j_properties (MemoryNode_new m)) ''updated_at''
           = Some (PStr (isoformat (m_updated_at m)))"
  by ((cases "m_context m";
       simp add: to_neo4j_properties_eq lookup_foldl_other startswith_def optional_props_base
         del: map_of_eq_Some_iff)+)

lemma to_neo4j_optional:
  shows "map_of (to_neo4j_properties (MemoryNode_new m)) ''summary''
           = (case m_summary m of None \<Rightarrow> None
              | Some s \<Rightarrow> if s \<noteq> [] then Some (PStr s) else None)"
    and "map_of (to_neo4j_properties (MemoryNode_new m)) ''effectiveness''
           = map_option PFloat (m_effectiveness m)"
    and "map_of (to_neo4j_properties (MemoryNode_new m)) ''last_accessed''
           = map_option (\<lambda>d. PStr (isoformat d)) (m_last_accessed m)"
  by ((cases "m_context m";
       simp add: to_neo4j_properties_eq lookup_foldl_other startswith_def optional_props_optional
         del: map_of_eq_Some_iff)+)

lemma to_neo4j_no_context:
  assumes "m_context m = None"
  shows "map_of (to_neo4j_properties (MemoryNode_new m)) (''context_'' @ k) = None"
  using assms optional_props_no_context[of m k] by (simp add: to_neo4j_properties_eq)

lemma MemoryType_of_value [simp]: "MemoryType_of (MemoryType_value t) = Some t"
  by (cases t) (simp_all add: MemoryType_of_def all_MemoryType_def)

lemma field_or_opt_str:
  "map_of cd k = map_option PStr x \<Longrightarrow> field_or cd k None as_opt_str = Some x"
  by (cases x) (simp_all add: field_or_def as_opt_str_def)

lemma field_or_absent: "map_of cd k = None \<Longrightarrow> field_or cd k dflt conv = Some dflt"
  by (simp add: field_or_def)

lemma nn_of_lookup: "map_of P k = x \<Longrightarrow> nn P k = (case x of Some PNull \<Rightarrow> None | y \<Rightarrow> y)"
  by (simp add: nn_def)

lemma decode_context_roundtrip:
  assumes dist: "distinct (map fst d)"
    and N: "\<And>k. nn d k = nn (to_neo4j_properties (MemoryNode_new m)) k"
    and empty: "context_collections_empty m"
    and valid: "case m_context m of None \<Rightarrow> True | Some c \<Rightarrow> datetime_valid (c_timestamp c)"
  shows "decode_context now d = Some (m_context m)"
proof (cases "m_context m")
  case None
  have "\<And>k. nn d (''context_'' @ k) = None"
    using N to_neo4j_no_context[OF None] by (simp add: nn_def)
  then have "collect_context [] d = []"
    using collect_context_Nil_iff[OF dist] by simp
  then show ?thesis using None by (simp add: decode_context_def)
next
  case (Some c)
  define cd where "cd = collect_context [] d"
  define P where "P = to_neo4j_properties (MemoryNode_new m)"
  have cdk: "\<And>k. map_of cd k = nn P (''context_'' @ k)"
    unfolding cd_def P_def using N
    by (simp add: map_of_collect_context[OF dist] split: option.splits)
  note L = to_neo4j_context[OF Some, folded P_def]
  have e: "c_files_involved c = []" "c_languages c = []" "c_frameworks c = []"
    "c_technologies c = []" "c_additional_metadata c = []"
    using empty Some by (simp_all add: context_collections_empty_def)
  have tsv: "datetime_valid (c_timestamp c)" using valid Some by simp
  have k1: "map_of cd ''project_path'' = map_option PStr (c_project_path c)"
    using cdk[of "''project_path''"] nn_of_lookup[OF L(1)]
    by (cases "c_project_path c") simp_all
  have k2: "map_of cd ''files_involved'' = None"
    using cdk[of "''files_involved''"] nn_of_lookup[OF L(2)] e by simp
  have k3: "map_of cd ''languages'' = None"
    using cdk[of "''languages''"] nn_of_lookup[OF L(3)] e by simp
  have k4: "map_of cd ''frameworks'' = None"
    using cdk[of "''frameworks''"] nn_of_lookup[OF L(4)] e by simp
  have k5: "map_of cd ''technologies'' = None"
    using cdk[of "''technologies''"] nn_of_lookup[OF L(5)] e by simp
  have k6: "map_of cd ''git_commit'' = map_option PStr (c_git_commit c)"
    using cdk[of "''git_commit''"] nn_of_lookup[OF L(6)]
    by (cases "c_git_commit c") simp_all
  have k7: "map_of cd ''git_branch'' = map_option PStr (c_git_branch c)"
    using cdk[of "''git_branch''"] nn_of_lookup[OF L(7)]
    by (cases "c_git_branch c") simp_all
  have k8: "map_of cd ''working_directory'' = map_option PStr (c_working_directory c)"
    using cdk[of "''working_directory''"] nn_of_lookup[OF L(8)]
    by (cases "c_working_directory c") simp_all
  have k9: "map_of cd ''timestamp'' = Some (PStr (isoformat (c_timestamp c)))"
    using cdk[of "''timestamp''"] nn_of_lookup[OF L(9)] by simp
  have k10: "map_of cd ''session_id'' = map_option PStr (c_session_id c)"
    using cdk[of "''session_id''"] nn_of_lookup[OF L(10)]
    by (cases "c_session_id c") simp_all
  have k11: "map_of cd ''user_id'' = map_option PStr (c_user_id c)"
    using cdk[of "''user_id''"] nn_of_lookup[OF L(11)]
    by (cases "c_user_id c") simp_all
  have k12: "map_of cd ''additional_metadata'' = None"
    using cdk[of "''additional_metadata''"] nn_of_lookup[OF L(12)] e by simp
  have ne: "cd \<noteq> []" using k9 by auto
  have ts: "field_or cd ''timestamp'' now fromisoformat_pval = Some (c_timestamp c)"
    using k9 tsv by (simp add: field_or_def fromisoformat_pval_def fromisoformat_isoformat)
  have rec: "\<lparr>c_project_path = c_project_path c, c_files_involved = [], c_languages = [],
              c_frameworks = [], c_technologies = [], c_git_commit = c_git_commit c,
              c_git_branch = c_git_branch c, c_working_directory = c_working_directory c,
              c_timestamp = c_timestamp c, c_session_id = c_session_id c,
              c_user_id = c_user_id c, c_additional_metadata = []\<rparr> = c"
    using e by (cases c) simp
  have "MemoryContext_of_dict now cd = Some c"
    unfolding MemoryContext_of_dict_def
    by (simp add: ts field_or_opt_str[OF k1] field_or_absent[OF k2] field_or_absent[OF k3]
        field_or_absent[OF k4] field_or_absent[OF k5] field_or_opt_str[OF k6]
        field_or_opt_str[OF k7] field_or_opt_str[OF k8] field_or_opt_str[OF k10]
        field_or_opt_str[OF k11] field_or_absent[OF k12] rec)
  then show ?thesis using ne Some by (simp add: decode_context_def cd_def[symmetric])
qed

lemma validate_tags_idem: "validate_tags (validate_tags v) = validate_tags v"
proof -
  have "validate_tags (validate_tags v)
        = map (\<lambda>tag. strip (lower tag)) (filter (\<lambda>tag. strip tag \<noteq> []) (validate_tags v))"
    by (simp add: validate_tags_def)
  also have "\<dots> = map (\<lambda>tag. strip (lower tag)) (validate_tags v)"
    by (simp only: filter_validate_tags)
  also have "\<dots> = validate_tags v"
    by (simp add: validate_tags_def norm_tag_idem)
  finally show ?thesis .
qed

lemma decode_roundtrip_nn:
  assumes dist: "distinct (map fst d)"
    and N: "\<And>k. nn d k = nn (to_neo4j_properties (MemoryNode_new m)) k"
    and valid: "memory_valid m"
    and empty: "context_collections_empty m"
  shows "neo4j_to_memory now d = Some (drop_empty_summary m)"
proof -
  define P where "P = to_neo4j_properties (MemoryNode_new m)"
  note B = to_neo4j_base[of m, folded P_def]
  note O = to_neo4j_optional[of m, folded P_def]
  have N': "\<And>k. nn d k = nn P k" using N by (simp add: P_def)
  have v: "strip (m_title m) = m_title m" "1 \<le> length (m_title m)" "length (m_title m) \<le> 200"
    "strip (m_content m) = m_content m" "1 \<le> length (m_content m)"
    "case m_summary m of None \<Rightarrow> True | Some s \<Rightarrow> length s \<le> 500"
    "validate_tags (m_tags m) = m_tags m"
    "in_unit (m_importance m)" "in_unit (m_confidence m)"
    "case m_effectiveness m of None \<Rightarrow> True | Some x \<Rightarrow> in_unit x"
    "0 \<le> m_usage_count m"
    "datetime_valid (m_created_at m)" "datetime_valid (m_updated_at m)"
    "case m_last_accessed m of None \<Rightarrow> True | Some d \<Rightarrow> datetime_valid d"
    "case m_context m of None \<Rightarrow> True | Some c \<Rightarrow> datetime_valid (c_timestamp c)"
    using valid by (simp_all add: memory_valid_def)
  have f_id: "as_opt_str (dict_get d ''id'') = Some (m_id m)"
    using N'[of "''id''"] nn_of_lookup[OF B(1)]
    by (cases "m_id m") (simp_all add: dict_get_nn as_opt_str_def)
  have f_type: "as_str (dict_get d ''type'') = Some (MemoryType_value (m_type m))"
    using N'[of "''type''"] nn_of_lookup[OF B(2)] by (simp add: dict_get_nn as_str_def)
  have f_title: "as_str (dict_get d ''title'') = Some (m_title m)"
    using N'[of "''title''"] nn_of_lookup[OF B(3)] by (simp add: dict_get_nn as_str_def)
  have f_content: "as_str (dict_get d ''content'') = Some (m_content m)"
    using N'[of "''content''"] nn_of_lookup[OF B(4)] by (simp add: dict_get_nn as_str_def)
  have f_summary: "as_opt_str (dict_get d ''summary'')
      = Some (if m_summary m = Some [] then None else m_summary m)"
    using N'[of "''summary''"] nn_of_lookup[OF O(1)]
    by (cases "m_summary m") (simp_all add: dict_get_nn as_opt_str_def)
  have "nn d ''tags'' = Some (PList (m_tags m))"
    using N'[of "''tags''"] nn_of_lookup[OF B(5)] by simp
  then have f_tags: "as_str_list (dict_get_default d ''tags'' dflt) = Some (m_tags m)" for dflt
    by (simp add: dict_get_default_nn as_str_list_def)
  have "nn d ''importance'' = Some (PFloat (m_importance m))"
    using N'[of "''importance''"] nn_of_lookup[OF B(6)] by simp
  then have f_imp: "as_float (dict_get_default d ''importance'' dflt)
      = Some (m_importance m)" for dflt
    by (simp add: dict_get_default_nn as_float_def)
  have "nn d ''confidence'' = Some (PFloat (m_confidence m))"
    using N'[of "''confidence''"] nn_of_lookup[OF B(7)] by simp
  then have f_conf: "as_float (dict_get_default d ''confidence'' dflt)
      = Some (m_confidence m)" for dflt
    by (simp add: dict_get_default_nn as_float_def)
  have f_eff: "as_opt_float (dict_get d ''effectiveness'') = Some (m_effectiveness m)"
    using N'[of "''effectiveness''"] nn_of_lookup[OF O(2)]
    by (cases "m_effectiveness m") (simp_all add: dict_get_nn as_opt_float_def)
  have "nn d ''usage_count'' = Some (PInt (m_usage_count m))"
    using N'[of "''usage_count''"] nn_of_lookup[OF B(8)] by simp
  then have f_uc: "as_int (dict_get_default d ''usage_count'' dflt)
      = Some (m_usage_count m)" for dflt
    by (simp add: dict_get_default_nn as_int_def)
  have f_created: "fromisoformat_pval (dict_get d ''created_at'') = Some (m_created_at m)"
    using N'[of "''created_at''"] nn_of_lookup[OF B(9)] v(12)
    by (simp add: dict_get_nn fromisoformat_pval_def fromisoformat_isoformat)
  have f_updated: "fromisoformat_pval (dict_get d ''updated_at'') = Some (m_updated_at m)"
    using N'[of "''updated_at''"] nn_of_lookup[OF B(10)] v(13)
    by (simp add: dict_get_nn fromisoformat_pval_def fromisoformat_isoformat)
  have f_la: "decode_last_accessed d = Some (m_last_accessed m)"
    using N'[of "''last_accessed''"] nn_of_lookup[OF O(3)] v(14)
    by (cases "m_last_accessed m")
       (simp_all add: decode_last_accessed_def dict_get_nn fromisoformat_pval_def
          fromisoformat_isoformat)
  have f_ctx: "decode_context now d = Some (m_context m)"
    using decode_context_roundtrip[OF dist N empty v(15)] .
  have sl: "case (if m_summary m = Some [] then None else m_summary m) of
              None \<Rightarrow> True | Some s \<Rightarrow> length s \<le> 500"
    using v(6) by (cases "m_summary m") auto
  have rec: "\<lparr>m_id = m_id m, m_type = m_type m, m_title = m_title m, m_content = m_content m,
      m_summary = (if m_summary m = Some [] then None else m_summary m), m_tags = m_tags m,
      m_context = m_context m, m_importance = m_importance m, m_confidence = m_confidence m,
      m_effectiveness = m_effectiveness m, m_usage_count = m_usage_count m,
      m_created_at = m_created_at m, m_updated_at = m_updated_at m,
      m_last_accessed = m_last_accessed m\<rparr> = drop_empty_summary m"
    by (cases m) (simp add: drop_empty_summary_def)
  have eff: "\<not> (case m_effectiveness m of None \<Rightarrow> False | Some x \<Rightarrow> \<not> in_unit x)"
    using v(10) by (cases "m_effectiveness m") auto
  have sl': "\<not> (case (if m_summary m = Some [] then None else m_summary m) of
              None \<Rightarrow> False | Some s \<Rightarrow> 500 < length s)"
    using sl by (cases "m_summary m") auto
  have new: "Memory_new now now
      \<lparr> a_id = m_id m, a_type = m_type m, a_title = m_title m, a_content = m_content m,
        a_summary = (if m_summary m = Some [] then None else m_summary m),
        a_tags = Some (m_tags m), a_context = m_context m,
        a_importance = Some (m_importance m), a_confidence = Some (m_confidence m),
        a_effectiveness = m_effectiveness m, a_usage_count = Some (m_usage_count m),
        a_created_at = Some (m_created_at m), a_updated_at = Some (m_updated_at m),
        a_last_accessed = m_last_accessed m \<rparr> = Inr (drop_empty_summary m)"
  proof -
    have ne: "m_title m \<noteq> []" "m_content m \<noteq> []" using v(2,5) by auto
    show ?thesis
      unfolding Memory_new_def Let_def
      using v(1,3,4,7-9,11) eff sl' ne
      by (simp add: validate_text_fields_def rec)
  qed
  show ?thesis
    unfolding neo4j_to_memory_def
    by (simp add: f_id f_type f_title f_content f_summary f_tags f_imp f_conf f_eff f_uc
        f_created f_updated f_la f_ctx new)
qed

lemma length_strip_le: "length (strip s) \<le> length s"
proof -
  have "length (dropWhile is_space (rev (dropWhile is_space s)))
        \<le> length (rev (dropWhile is_space s))"
    by (rule length_dropWhile_le)
  also have "\<dots> \<le> length s" by (simp add: length_dropWhile_le)
  finally show ?thesis by (simp add: strip_def)
qed

lemma Memory_new_Inr:
  assumes "Memory_new t1 t2 a = Inr m"
  shows "1 \<le> length (a_title a) \<and> length (a_title a) \<le> 200 \<and> 1 \<le> length (a_content a)
     \<and> (case a_summary a of None \<Rightarrow> True | Some s \<Rightarrow> length s \<le> 500)
     \<and> in_unit (m_importance m) \<and> in_unit (m_confidence m)
     \<and> (case a_effectiveness a of None \<Rightarrow> True | Some x \<Rightarrow> in_unit x)
     \<and> 0 \<le> m_usage_count m
     \<and> m_id m = a_id a \<and> m_type m = a_type a
     \<and> m_title m = strip (a_title a) \<and> m_content m = strip (a_content a)
     \<and> m_summary m = a_summary a
     \<and> m_tags m = validate_tags (case a_tags a of None \<Rightarrow> [] | Some ts \<Rightarrow> ts)
     \<and> m_context m = a_context a
     \<and> m_importance m = (case a_importance a of None \<Rightarrow> 0.5 | Some x \<Rightarrow> x)
     \<and> m_confidence m = (case a_confidence a of None \<Rightarrow> 0.8 | Some x \<Rightarrow> x)
     \<and> m_effectiveness m = a_effectiveness a
     \<and> m_usage_count m = (case a_usage_count a of None \<Rightarrow> 0 | Some n \<Rightarrow> n)
     \<and> m_created_at m = (case a_created_at a of None \<Rightarrow> t1 | Some d \<Rightarrow> d)
     \<and> m_updated_at m = (case a_updated_at a of None \<Rightarrow> t2 | Some d \<Rightarrow> d)
     \<and> m_last_accessed m = a_last_accessed a"
proof -
  define bad_summary where
    "bad_summary = (case a_summary a of None \<Rightarrow> False | Some s \<Rightarrow> 500 < length s)"
  define bad_eff where
    "bad_eff = (case a_effectiveness a of None \<Rightarrow> False | Some x \<Rightarrow> \<not> in_unit x)"
  have s: "\<not> bad_summary \<Longrightarrow> (case a_summary a of None \<Rightarrow> True | Some s \<Rightarrow> length s \<le> 500)"
    by (cases "a_summary a") (auto simp: bad_summary_def)
  have e: "\<not> bad_eff \<Longrightarrow> (case a_effectiveness a of None \<Rightarrow> True | Some x \<Rightarrow> in_unit x)"
    by (cases "a_effectiveness a") (auto simp: bad_eff_def)
  show ?thesis
    using assms s e
    unfolding Memory_new_def Let_def validate_text_fields_def
      bad_summary_def[symmetric] bad_eff_def[symmetric]
    by (auto simp: Suc_le_eq split: if_splits)
qed

lemma Memory_new_valid:
  assumes new: "Memory_new t1 t2 a = Inr m"
    and "strip (a_title a) \<noteq> []" and "strip (a_content a) \<noteq> []"
    and "datetime_valid t1" and "datetime_valid t2"
    and "case a_created_at a of None \<Rightarrow> True | Some d \<Rightarrow> datetime_valid d"
    and "case a_updated_at a of None \<Rightarrow> True | Some d \<Rightarrow> datetime_valid d"
    and "case a_last_accessed a of None \<Rightarrow> True | Some d \<Rightarrow> datetime_valid d"
    and "case a_context a of None \<Rightarrow> True | Some c \<Rightarrow> datetime_valid (c_timestamp c)"
  shows "memory_valid m"
proof -
  note I = Memory_new_Inr[OF new]
  have "length (a_title a) \<le> 200" using I by blast
  then have t: "length (strip (a_title a)) \<le> 200"
    using length_strip_le[of "a_title a"] by linarith
  have ne: "1 \<le> length (strip (a_title a))" "1 \<le> length (strip (a_content a))"
    using assms(2,3) by (simp_all add: Suc_le_eq)
  have iu: "in_unit (m_importance m)" "in_unit (m_confidence m)" "0 \<le> m_usage_count m"
    using I by blast+
  have fs: "m_title m = strip (a_title a)" "m_content m = strip (a_content a)"
    "m_summary m = a_summary a" "m_effectiveness m = a_effectiveness a"
    "m_last_accessed m = a_last_accessed a" "m_context m = a_context a"
    "m_tags m = validate_tags (case a_tags a of None \<Rightarrow> [] | Some ts \<Rightarrow> ts)"
    "case a_summary a of None \<Rightarrow> True | Some s \<Rightarrow> length s \<le> 500"
    "case a_effectiveness a of None \<Rightarrow> True | Some x \<Rightarrow> in_unit x"
    using I by blast+
  have cu: "m_created_at m = (case a_created_at a of None \<Rightarrow> t1 | Some d \<Rightarrow> d)"
    "m_updated_at m = (case a_updated_at a of None \<Rightarrow> t2 | Some d \<Rightarrow> d)"
    using I by blast+
  have ca: "datetime_valid (m_created_at m)"
    using cu assms(4,6) by (cases "a_created_at a") simp_all
  have ua: "datetime_valid (m_updated_at m)"
    using cu assms(5,7) by (cases "a_updated_at a") simp_all
  show ?thesis
    unfolding memory_valid_def
    using fs iu t ne ca ua assms(8,9) by (simp add: validate_tags_idem)
qed

lemma ex_time_valid [simp]: "datetime_valid ex_time" "datetime_valid ex_later"
  by (simp_all add: datetime_valid_def ex_time_def ex_later_def days_in_month_def)

lemma strip_ex [simp]: "strip ''NPE on null user'' = ''NPE on null user''" "strip ''...'' = ''...''"
  by (simp_all add: strip_def is_space_def)

lemma validate_tags_Nil [simp]: "validate_tags [] = []"
  by (simp add: validate_tags_def)

lemma ex_memory_valid:
  "(case s of None \<Rightarrow> True | Some x \<Rightarrow> length x \<le> 500) \<Longrightarrow>
   (case ctx of None \<Rightarrow> True | Some c \<Rightarrow> datetime_valid (c_timestamp c)) \<Longrightarrow>
   memory_valid (ex_memory i s ctx)"
  by (simp add: memory_valid_def ex_memory_def in_unit_def)

lemma decode_fails_nn:
  assumes dist: "distinct (map fst d)"
    and N: "\<And>k. nn d k = nn (to_neo4j_properties (MemoryNode_new m)) k"
    and ctx: "m_context m = Some c"
    and ne: "c_files_involved c \<noteq> [] \<or> c_languages c \<noteq> [] \<or> c_frameworks c \<noteq> []
             \<or> c_technologies c \<noteq> [] \<or> c_additional_metadata c \<noteq> []"
  shows "neo4j_to_memory now d = None"
proof -
  define cd where "cd = collect_context [] d"
  define P where "P = to_neo4j_properties (MemoryNode_new m)"
  have cdk: "\<And>k. map_of cd k = nn P (''context_'' @ k)"
    unfolding cd_def P_def using N
    by (simp add: map_of_collect_context[OF dist] split: option.splits)
  note L = to_neo4j_context[OF ctx, folded P_def]
  have k9: "map_of cd ''timestamp'' = Some (PStr (isoformat (c_timestamp c)))"
    using cdk[of "''timestamp''"] nn_of_lookup[OF L(9)] by simp
  have cne: "cd \<noteq> []" using k9 by auto
  have str_list_fail: "map_of cd k = Some (PStr s) \<Longrightarrow> field_or cd k [] as_str_list = None"
    for k s by (simp add: field_or_def as_str_list_def)
  have sd: "str_dict kvs \<noteq> []" for kvs by (simp add: str_dict_def)
  have str_dict_fail: "map_of cd k = Some (PStr (str_dict kvs))
      \<Longrightarrow> field_or cd k [] as_str_dict = None" for k kvs
    by (simp add: field_or_def as_str_dict_def sd)
  have "field_or cd ''files_involved'' [] as_str_list = None
      \<or> field_or cd ''languages'' [] as_str_list = None
      \<or> field_or cd ''frameworks'' [] as_str_list = None
      \<or> field_or cd ''technologies'' [] as_str_list = None
      \<or> field_or cd ''additional_metadata'' [] as_str_dict = None"
    using ne
  proof (elim disjE)
    assume a: "c_files_involved c \<noteq> []"
    have "map_of cd ''files_involved'' = Some (PStr (str_list (c_files_involved c)))"
      using cdk[of "''files_involved''"] nn_of_lookup[OF L(2)] a by simp
    from str_list_fail[OF this] show ?thesis by simp
  next
    assume a: "c_languages c \<noteq> []"
    have "map_of cd ''languages'' = Some (PStr (str_list (c_languages c)))"
      using cdk[of "''languages''"] nn_of_lookup[OF L(3)] a by simp
    from str_list_fail[OF this] show ?thesis by simp
  next
    assume a: "c_frameworks c \<noteq> []"
    have "map_of cd ''frameworks'' = Some (PStr (str_list (c_frameworks c)))"
      using cdk[of "''frameworks''"] nn_of_lookup[OF L(4)] a by simp
    from str_list_fail[OF this] show ?thesis by simp
  next
    assume a: "c_technologies c \<noteq> []"
    have "map_of cd ''technologies'' = Some (PStr (str_list (c_technologies c)))"
      using cdk[of "''technologies''"] nn_of_lookup[OF L(5)] a by simp
    from str_list_fail[OF this] show ?thesis by simp
  next
    assume a: "c_additional_metadata c \<noteq> []"
    have "map_of cd ''additional_metadata'' = Some (PStr (str_dict (c_additional_metadata c)))"
      using cdk[of "''additional_metadata''"] nn_of_lookup[OF L(12)] a by simp
    from str_dict_fail[OF this] show ?thesis by simp
  qed
  then have "MemoryContext_of_dict now cd = None"
    unfolding MemoryContext_of_dict_def
    by (auto split: option.splits prod.splits)
  then have "decode_context now d = None"
    using cne by (simp add: decode_context_def cd_def[symmetric])
  then show ?thesis
    unfolding neo4j_to_memory_def
    by (simp split: option.splits prod.splits sum.splits)
qed

section \<open>The store: writing and reading back\<close>



lemma nn_update: "nn (AList.update k' v d) k = (if k = k' then (if v = PNull then None else Some v) else nn d k)"
  by (auto simp: nn_def update_conv' split: pval.splits)

lemma nn_delete: "nn (AList.delete k' d) k = (if k = k' then None else nn d k)"
  by (auto simp: nn_def delete_conv')

lemma nn_set_properties:
  "distinct (map fst new) \<Longrightarrow>
   nn (set_properties old new) k =
     (case map_of new k of None \<Rightarrow> nn old k | Some v \<Rightarrow> if v = PNull then None else Some v)"
  unfolding set_properties_def
proof (induction new arbitrary: old)
  case Nil
  then show ?case by simp
next
  case (Cons kv new)
  obtain k' v' where kv: "kv = (k', v')" by (cases kv)
  have dist: "distinct (map fst new)" and notin: "map_of new k' = None"
    using Cons.prems kv by (auto simp: map_of_eq_None_iff)
  show ?case
    using Cons.IH[OF dist] kv notin
    by (auto simp: nn_update nn_delete split: option.splits)
qed

lemma distinct_set_properties:
  "distinct (map fst old) \<Longrightarrow> distinct (map fst (set_properties old new))"
  unfolding set_properties_def
  by (induction new arbitrary: old) (auto simp: distinct_update distinct_delete)

lemma has_id_nn: "has_id i n \<longleftrightarrow> nn (n_props n) ''id'' = Some (PStr i)"
  by (simp add: has_id_def nn_Some_iff)

lemma nn_stored_properties:
  assumes "m_id m = Some i"
  shows "nn (set_properties [(''id'', PStr i)] (to_neo4j_properties (MemoryNode_new m))) k
         = nn (to_neo4j_properties (MemoryNode_new m)) k"
proof -
  have id: "map_of (to_neo4j_properties (MemoryNode_new m)) ''id'' = Some (PStr i)"
    using to_neo4j_base(1)[of m] assms by simp
  define P where "P = to_neo4j_properties (MemoryNode_new m)"
  have sp: "nn (set_properties [(''id'', PStr i)] P) k =
     (case map_of P k of None \<Rightarrow> nn [(''id'', PStr i)] k
      | Some v \<Rightarrow> if v = PNull then None else Some v)"
    unfolding P_def by (rule nn_set_properties[OF distinct_to_neo4j_properties])
  show ?thesis
  proof (cases "k = ''id''")
    case True
    have "nn P ''id'' = Some (PStr i)" using nn_of_lookup[OF id] by (simp add: P_def)
    then show ?thesis using sp id True by (simp add: P_def)
  next
    case False
    have "nn P k = (case map_of P k of None \<Rightarrow> None
      | Some v \<Rightarrow> if v = PNull then None else Some v)"
      by (simp add: nn_def split: option.splits pval.splits)
    moreover have "nn [(''id'', PStr i)] k = None" using False by (simp add: nn_def)
    ultimately show ?thesis using sp by (simp add: P_def split: option.splits)
  qed
qed

lemma id_after_set_properties:
  assumes "m_id m = Some i"
  shows "dict_get (set_properties old (to_neo4j_properties (MemoryNode_new m))) ''id'' = PStr i"
proof -
  have id: "map_of (to_neo4j_properties (MemoryNode_new m)) ''id'' = Some (PStr i)"
    using to_neo4j_base(1)[of m] assms by simp
  then show ?thesis
    by (simp add: dict_get_nn nn_set_properties[OF distinct_to_neo4j_properties])
qed

definition store_id :: "string \<Rightarrow> Memory \<Rightarrow> string" where
  "store_id uuid4 memory =
     (case m_id memory of None \<Rightarrow> uuid4 | Some s \<Rightarrow> if s = [] then uuid4 else s)"

lemma merge_memory_has_id: "list_ex (has_id i) (g_nodes (merge_memory g i))"
  by (auto simp: merge_memory_def has_id_def list_ex_iff)

lemma store_memory_eq:
  "store_memory uuid4 utcnow g memory =
     (Inr (PStr (store_id uuid4 memory)),
      snd (run_store_query g (store_id uuid4 memory)
             (to_neo4j_properties (MemoryNode_new
                (memory\<lparr>m_id := Some (store_id uuid4 memory), m_updated_at := utcnow\<rparr>)))),
      memory\<lparr>m_id := Some (store_id uuid4 memory), m_updated_at := utcnow\<rparr>)"
proof -
  define i where "i = store_id uuid4 memory"
  define M where "M = memory\<lparr>m_id := Some i, m_updated_at := utcnow\<rparr>"
  define P where "P = to_neo4j_properties (MemoryNode_new M)"
  have mid: "m_id M = Some i" by (simp add: M_def)
  obtain n where n: "n \<in> set (g_nodes (merge_memory g i))" "has_id i n"
    using merge_memory_has_id[of i g] by (auto simp: list_ex_iff)
  then have ne: "filter (has_id i) (g_nodes (merge_memory g i)) \<noteq> []"
    by (auto simp: filter_empty_conv)
  then obtain n0 ns where f: "filter (has_id i) (g_nodes (merge_memory g i)) = n0 # ns"
    by (cases "filter (has_id i) (g_nodes (merge_memory g i))") auto
  have "n0 \<in> set (filter (has_id i) (g_nodes (merge_memory g i)))" using f by simp
  then have h0: "has_id i n0" by simp
  have row: "fst (run_store_query g i P) = PStr i # map (\<lambda>n. dict_get (n_props (if has_id i n
                      then n\<lparr>n_props := set_properties (n_props n) P\<rparr> else n)) ''id'') ns"
    using f h0 id_after_set_properties[OF mid] by (simp add: run_store_query_def Let_def P_def)
  show ?thesis
    unfolding store_memory_def Let_def store_id_def[symmetric] i_def[symmetric]
      M_def[symmetric] P_def[symmetric]
    using row by (cases "run_store_query g i P") auto
qed

lemma store_then_get:
  assumes fresh: "\<not> list_ex (has_id i) (g_nodes g)"
    and mid: "m_id M = Some i"
    and valid: "memory_valid M"
    and empty: "context_collections_empty M"
  shows "get_memory now (snd (run_store_query g i (to_neo4j_properties (MemoryNode_new M)))) i
         = Some (drop_empty_summary M)"
proof -
  define P where "P = to_neo4j_properties (MemoryNode_new M)"
  define n0 where "n0 = \<lparr>n_ident = fresh_node_ident g, n_props = [(''id'', PStr i)]\<rparr>"
  define n1 where "n1 = n0\<lparr>n_props := set_properties (n_props n0) P\<rparr>"
  define upd where "upd = (\<lambda>n. if has_id i n
                      then n\<lparr>n_props := set_properties (n_props n) P\<rparr> else n)"
  have old: "\<And>n. n \<in> set (g_nodes g) \<Longrightarrow> \<not> has_id i n"
    using fresh by (auto simp: list_ex_iff)
  have mg: "merge_memory g i = g\<lparr>g_nodes := g_nodes g @ [n0]\<rparr>"
    using fresh by (simp add: merge_memory_def n0_def)
  have h0: "has_id i n0" by (simp add: has_id_def n0_def)
  have u0: "upd n0 = n1" using h0 by (simp add: upd_def n1_def)
  have uold: "map upd (g_nodes g) = g_nodes g"
    using old by (induction "g_nodes g") (auto simp: upd_def map_idI)
  have N: "\<And>k. nn (n_props n1) k = nn P k"
    unfolding n1_def n0_def P_def using nn_stored_properties[OF mid] by simp
  have h1: "has_id i n1"
    using N[of "''id''"] nn_of_lookup[OF to_neo4j_base(1)[of M]] mid
    by (simp add: has_id_nn P_def)
  have fold: "filter (has_id i) (g_nodes g) = []"
    using old by (simp add: filter_empty_conv)
  have g': "snd (run_store_query g i P) = g\<lparr>g_nodes := g_nodes g @ [n1]\<rparr>"
    unfolding run_store_query_def Let_def upd_def[symmetric]
    by (simp add: mg uold u0)
  have d: "distinct (map fst (n_props n1))"
    unfolding n1_def n0_def by (simp add: distinct_set_properties)
  have "neo4j_to_memory now (n_props n1) = Some (drop_empty_summary M)"
    using decode_roundtrip_nn[OF d _ valid empty] N by (simp add: P_def)
  then show ?thesis
    unfolding P_def[symmetric] g' get_memory_def
    by (simp add: fold h1)
qed

lemma ex_new: "Memory_new ex_time ex_time ex_args = Inr (ex_memory None None None)"
  by (simp add: Memory_new_def ex_args_def ex_memory_def in_unit_def validate_text_fields_def)

lemma has_id_ex_node [simp]: "has_id i (ex_node k j) \<longleftrightarrow> i = j"
  using to_neo4j_base(1)[of "ex_memory (Some j) None None"]
  by (auto simp: has_id_def ex_node_def ex_memory_def)

lemma store_then_get_fresh:
  assumes valid: "memory_valid memory"
    and empty: "context_collections_empty memory"
    and noid: "m_id memory = None"
    and now: "datetime_valid utcnow"
    and fresh: "\<not> list_ex (has_id uuid4) (g_nodes g)"
  shows "fst (store_memory uuid4 utcnow g memory) = Inr (PStr uuid4)
     \<and> get_memory now (fst (snd (store_memory uuid4 utcnow g memory))) uuid4
         = Some (drop_empty_summary (memory\<lparr>m_id := Some uuid4, m_updated_at := utcnow\<rparr>))"
proof -
  define M where "M = memory\<lparr>m_id := Some uuid4, m_updated_at := utcnow\<rparr>"
  have i: "store_id uuid4 memory = uuid4" using noid by (simp add: store_id_def)
  have v: "memory_valid M" using valid now by (simp add: memory_valid_def M_def)
  have e: "context_collections_empty M"
    using empty by (simp add: context_collections_empty_def M_def)
  have mid: "m_id M = Some uuid4" by (simp add: M_def)
  show ?thesis
    unfolding store_memory_eq i M_def[symmetric]
    using store_then_get[OF fresh mid v e, of now] by simp
qed

section \<open>Search\<close>

lemma neo4j_to_memory_SomeD:
  assumes "neo4j_to_memory now d = Some m"
  shows "as_float (dict_get_default d ''importance'' (PFloat 0.5)) = Some (m_importance m)"
    and "as_opt_str (dict_get d ''id'') = Some (m_id m)"
  using assms unfolding neo4j_to_memory_def
  by (auto split: option.splits prod.splits sum.splits dest!: Memory_new_Inr)

lemma cypher_num_present:
  "cypher_num (dict_get d k) = Some v \<Longrightarrow> as_float (dict_get_default d k dflt) = Some v"
  by (auto simp: cypher_num_def dict_get_def dict_get_default_def as_float_def
      split: option.splits pval.splits)

lemma set_order_by_desc [simp]: "set (order_by_desc key rows) = set rows"
  by (simp add: order_by_desc_def)

lemma length_order_by_desc [simp]: "length (order_by_desc key rows) = length rows"
  by (simp add: order_by_desc_def)

lemma run_search_query_subset:
  "n \<in> set (run_search_query g conditions limit) \<Longrightarrow>
   n \<in> set (g_nodes g) \<and> list_all (condition_holds (n_props n)) conditions"
  unfolding run_search_query_def by (auto dest!: in_set_takeD)

lemma search_memories_row:
  "m \<in> set (search_memories now g q) \<Longrightarrow>
   \<exists>n \<in> set (run_search_query g (search_conditions q) (q_limit q)).
      neo4j_to_memory now (n_props n) = Some m"
  unfolding search_memories_def by (auto simp: List.map_filter_def)

lemma min_importance_condition:
  "q_min_importance q = Some x \<Longrightarrow> MinImportance x \<in> set (search_conditions q)"
  by (simp add: search_conditions_def)

lemma search_min_importance:
  assumes "q_min_importance q = Some x" and "m \<in> set (search_memories now g q)"
  shows "x \<le> m_importance m"
proof -
  obtain n where n: "n \<in> set (run_search_query g (search_conditions q) (q_limit q))"
      and d: "neo4j_to_memory now (n_props n) = Some m"
    using search_memories_row[OF assms(2)] by blast
  have "list_all (condition_holds (n_props n)) (search_conditions q)"
    using run_search_query_subset[OF n] by simp
  then have "condition_holds (n_props n) c" if "c \<in> set (search_conditions q)" for c
    using that by (simp add: list_all_iff)
  then have "condition_holds (n_props n) (MinImportance x)"
    using min_importance_condition[OF assms(1)] by blast
  then obtain v where v: "cypher_num (dict_get (n_props n) ''importance'') = Some v" "x \<le> v"
    by (auto split: option.splits)
  have "as_float (dict_get_default (n_props n) ''importance'' (PFloat 0.5)) = Some v"
    using cypher_num_present[OF v(1)] by simp
  then have "m_importance m = v" using neo4j_to_memory_SomeD(1)[OF d] by simp
  then show ?thesis using v by simp
qed

lemma length_search_conditions:
  "length (search_conditions q) = implemented_filter_fields q"
  unfolding search_conditions_def implemented_filter_fields_def
  by (cases "q_query q"; cases "q_project_path q"; cases "q_min_importance q";
      cases "q_min_confidence q"; cases "q_created_after q"; cases "q_created_before q";
      simp)

lemma search_conditions_ignores:
  "search_conditions (q\<lparr>q_languages := l, q_frameworks := f, q_min_effectiveness := e\<rparr>)
   = search_conditions q"
  by (simp add: search_conditions_def)

lemma run_search_query_no_conditions:
  "length (g_nodes g) \<le> limit \<Longrightarrow> set (run_search_query g [] limit) = set (g_nodes g)"
  by (simp add: run_search_query_def)

lemma decode_mem_node:
  "memory_valid m \<Longrightarrow> context_collections_empty m \<Longrightarrow>
   neo4j_to_memory now (n_props (mem_node k m)) = Some (drop_empty_summary m)"
  unfolding mem_node_def
  using decode_roundtrip_nn[OF distinct_to_neo4j_properties refl] by simp

lemma ex_memory_imp_valid: "in_unit x \<Longrightarrow> memory_valid (ex_memory_imp i x)"
  by (simp add: ex_memory_imp_def memory_valid_def ex_memory_def in_unit_def)

lemma ex_memory_imp_plain [simp]:
  "context_collections_empty (ex_memory_imp i x)"
  "drop_empty_summary (ex_memory_imp i x) = ex_memory_imp i x"
  "m_importance (ex_memory_imp i x) = x"
  by (simp_all add: ex_memory_imp_def context_collections_empty_def ex_memory_def
      drop_empty_summary_def)

lemma decode_ex_memory_imp:
  "in_unit x \<Longrightarrow>
   neo4j_to_memory now (n_props (mem_node k (ex_memory_imp i x))) = Some (ex_memory_imp i x)"
  using decode_mem_node[of "ex_memory_imp i x" now k] ex_memory_imp_valid[of x i] by simp

lemma importance_mem_node [simp]:
  "dict_get (n_props (mem_node k m)) ''importance'' = PFloat (m_importance m)"
  by (simp add: mem_node_def dict_get_def to_neo4j_base(6))

lemma sort_key_single [simp]: "sort_key f [x] = [x]"
  by simp

section \<open>Claims\<close>

text \<open>
  C7. Tag normalisation (the \<open>tags\<close> validator of \<open>Memory\<close>) is idempotent: normalising
  a normalised list of tags gives the same list, for every list of tag strings; and the
  list \<open>["  Foo ", "bar", ""]\<close> normalises to \<open>["foo", "bar"]\<close>.
\<close>

theorem validate_tags_idempotent:
  "validate_tags (validate_tags v) = validate_tags v
   \<and> validate_tags [''  Foo '', ''bar'', ''''] = [''foo'', ''bar'']"
proof
  show "validate_tags (validate_tags v) = validate_tags v"
    by (rule validate_tags_idem)
next
  show "validate_tags [''  Foo '', ''bar'', ''''] = [''foo'', ''bar'']"
    by code_simp
qed

text \<open>
  C1, as amended. For every valid \<open>Memory\<close> whose context, if it has one, holds only
  empty lists and an empty metadata map, encoding it with \<open>to_neo4j_properties\<close> and
  decoding the result with \<open>_neo4j_to_memory\<close> yields a \<open>Memory\<close> equal to the
  original in every field, except that a summary that is the empty string comes back
  unset.
\<close>

theorem roundtrip_except_empty_summary:
  assumes "memory_valid m" and "context_collections_empty m"
  shows "neo4j_to_memory now (to_neo4j_properties (MemoryNode_new m))
         = Some (m\<lparr>m_summary := (if m_summary m = Some [] then None else m_summary m)\<rparr>)"
proof -
  have "neo4j_to_memory now (to_neo4j_properties (MemoryNode_new m))
        = Some (drop_empty_summary m)"
    by (rule decode_roundtrip_nn[OF distinct_to_neo4j_properties refl assms])
  moreover have "drop_empty_summary m
        = m\<lparr>m_summary := (if m_summary m = Some [] then None else m_summary m)\<rparr>"
    by (simp add: drop_empty_summary_def)
  ultimately show ?thesis by simp
qed

theorem roundtrip_except_empty_summary_witness:
  "memory_valid (ex_memory None (Some ''npe'') (Some ex_context))
   \<and> context_collections_empty (ex_memory None (Some ''npe'') (Some ex_context))
   \<and> neo4j_to_memory ex_later
        (to_neo4j_properties (MemoryNode_new (ex_memory None (Some ''npe'') (Some ex_context))))
      = Some (ex_memory None (Some ''npe'') (Some ex_context))"
proof -
  have v: "memory_valid (ex_memory None (Some ''npe'') (Some ex_context))"
    by (rule ex_memory_valid) (simp_all add: ex_context_def)
  have e: "context_collections_empty (ex_memory None (Some ''npe'') (Some ex_context))"
    by (simp add: context_collections_empty_def ex_memory_def ex_context_def)
  have s: "m_summary (ex_memory None (Some ''npe'') (Some ex_context)) \<noteq> Some []"
    by (simp add: ex_memory_def)
  show ?thesis
    using roundtrip_except_empty_summary[OF v e, of ex_later] v e s by simp
qed

text \<open>
  The claim as stated fails: a valid \<open>Memory\<close> without context whose summary is the
  empty string decodes to a \<open>Memory\<close> whose summary is unset.
\<close>

theorem roundtrip_empty_summary_counterexample:
  "memory_valid (ex_memory None (Some []) None)
   \<and> m_summary (ex_memory None (Some []) None) = Some []
   \<and> neo4j_to_memory ex_later
        (to_neo4j_properties (MemoryNode_new (ex_memory None (Some []) None)))
      = Some (ex_memory None None None)"
proof -
  have v: "memory_valid (ex_memory None (Some []) None)"
    by (rule ex_memory_valid) simp_all
  have e: "context_collections_empty (ex_memory None (Some []) None)"
    by (simp add: context_collections_empty_def ex_memory_def)
  have "neo4j_to_memory ex_later
          (to_neo4j_properties (MemoryNode_new (ex_memory None (Some []) None)))
        = Some (drop_empty_summary (ex_memory None (Some []) None))"
    by (rule decode_roundtrip_nn[OF distinct_to_neo4j_properties refl v e])
  moreover have "drop_empty_summary (ex_memory None (Some []) None) = ex_memory None None None"
    by (simp add: drop_empty_summary_def ex_memory_def)
  ultimately show ?thesis using v by (simp add: ex_memory_def)
qed

text \<open>
  Beside the claim: when a list or the metadata map of the context is not empty, the
  encoder writes its \<open>str()\<close> and the decoder hands that string to a list (or
  dictionary) field, which refuses it, so the decoder returns no \<open>Memory\<close> at all.
\<close>

lemma decode_fails_on_context_collections:
  assumes "m_context m = Some c"
    and "c_files_involved c \<noteq> [] \<or> c_languages c \<noteq> [] \<or> c_frameworks c \<noteq> []
         \<or> c_technologies c \<noteq> [] \<or> c_additional_metadata c \<noteq> []"
  shows "neo4j_to_memory now (to_neo4j_properties (MemoryNode_new m)) = None"
  by (rule decode_fails_nn[OF distinct_to_neo4j_properties refl assms])

text \<open>
  C2, as amended. For every \<open>Memory\<close>, the property mapping of \<open>to_neo4j_properties\<close>
  holds no key (and so no null) for \<open>summary\<close>, \<open>effectiveness\<close> or \<open>last_accessed\<close>
  when the field is unset, nor for a summary that is the empty string. It holds no
  \<open>context_\<close> key when the memory has no context. When the memory has a context, each
  of its list fields and its metadata map has its key: with the null value when the
  field is empty, with the string \<open>str(value)\<close> otherwise.
\<close>

theorem properties_omit_unset_optionals:
  "((m_summary m = None \<or> m_summary m = Some [])
      \<longrightarrow> map_of (to_neo4j_properties (MemoryNode_new m)) ''summary'' = None)
   \<and> (m_effectiveness m = None
      \<longrightarrow> map_of (to_neo4j_properties (MemoryNode_new m)) ''effectiveness'' = None)
   \<and> (m_last_accessed m = None
      \<longrightarrow> map_of (to_neo4j_properties (MemoryNode_new m)) ''last_accessed'' = None)
   \<and> map_of (to_neo4j_properties (MemoryNode_new m)) ''summary'' \<noteq> Some PNull
   \<and> map_of (to_neo4j_properties (MemoryNode_new m)) ''effectiveness'' \<noteq> Some PNull
   \<and> map_of (to_neo4j_properties (MemoryNode_new m)) ''last_accessed'' \<noteq> Some PNull
   \<and> (m_context m = None
      \<longrightarrow> (\<forall>k. map_of (to_neo4j_properties (MemoryNode_new m)) (''context_'' @ k) = None))
   \<and> (\<forall>c. m_context m = Some c \<longrightarrow>
          map_of (to_neo4j_properties (MemoryNode_new m)) ''context_files_involved''
            = Some (if c_files_involved c = [] then PNull
                    else PStr (str_list (c_files_involved c)))
        \<and> map_of (to_neo4j_properties (MemoryNode_new m)) ''context_languages''
            = Some (if c_languages c = [] then PNull else PStr (str_list (c_languages c)))
        \<and> map_of (to_neo4j_properties (MemoryNode_new m)) ''context_frameworks''
            = Some (if c_frameworks c = [] then PNull else PStr (str_list (c_frameworks c)))
        \<and> map_of (to_neo4j_properties (MemoryNode_new m)) ''context_technologies''
            = Some (if c_technologies c = [] then PNull
                    else PStr (str_list (c_technologies c)))
        \<and> map_of (to_neo4j_properties (MemoryNode_new m)) ''context_additional_metadata''
            = Some (if c_additional_metadata c = [] then PNull
                    else PStr (str_dict (c_additional_metadata c))))"
proof (intro conjI allI impI)
  show "map_of (to_neo4j_properties (MemoryNode_new m)) ''summary'' = None"
    if "m_summary m = None \<or> m_summary m = Some []"
    using that by (auto simp: to_neo4j_optional(1))
  show "map_of (to_neo4j_properties (MemoryNode_new m)) ''effectiveness'' = None"
    if "m_effectiveness m = None"
    using that by (simp add: to_neo4j_optional(2))
  show "map_of (to_neo4j_properties (MemoryNode_new m)) ''last_accessed'' = None"
    if "m_last_accessed m = None"
    using that by (simp add: to_neo4j_optional(3))
  show "map_of (to_neo4j_properties (MemoryNode_new m)) ''summary'' \<noteq> Some PNull"
    by (cases "m_summary m") (simp_all add: to_neo4j_optional(1))
  show "map_of (to_neo4j_properties (MemoryNode_new m)) ''effectiveness'' \<noteq> Some PNull"
    by (cases "m_effectiveness m") (simp_all add: to_neo4j_optional(2))
  show "map_of (to_neo4j_properties (MemoryNode_new m)) ''last_accessed'' \<noteq> Some PNull"
    by (cases "m_last_accessed m") (simp_all add: to_neo4j_optional(3))
  show "map_of (to_neo4j_properties (MemoryNode_new m)) (''context_'' @ k) = None"
    if "m_context m = None" for k
    using that by (rule to_neo4j_no_context)
next
  fix c assume c: "m_context m = Some c"
  note L = to_neo4j_context[OF c]
  show "map_of (to_neo4j_properties (MemoryNode_new m)) ''context_files_involved''
          = Some (if c_files_involved c = [] then PNull
                  else PStr (str_list (c_files_involved c)))"
    by (simp add: L(2))
  show "map_of (to_neo4j_properties (MemoryNode_new m)) ''context_languages''
          = Some (if c_languages c = [] then PNull else PStr (str_list (c_languages c)))"
    by (simp add: L(3))
  show "map_of (to_neo4j_properties (MemoryNode_new m)) ''context_frameworks''
          = Some (if c_frameworks c = [] then PNull else PStr (str_list (c_frameworks c)))"
    by (simp add: L(4))
  show "map_of (to_neo4j_properties (MemoryNode_new m)) ''context_technologies''
          = Some (if c_technologies c = [] then PNull
                  else PStr (str_list (c_technologies c)))"
    by (simp add: L(5))
  show "map_of (to_neo4j_properties (MemoryNode_new m)) ''context_additional_metadata''
          = Some (if c_additional_metadata c = [] then PNull
                  else PStr (str_dict (c_additional_metadata c)))"
    by (simp add: L(12))
qed

theorem properties_omit_unset_optionals_witness:
  "m_summary (ex_memory None None (Some ex_context)) = None
   \<and> map_of (to_neo4j_properties (MemoryNode_new (ex_memory None None (Some ex_context))))
        ''summary'' = None
   \<and> m_context (ex_memory None None (Some ex_context)) = Some ex_context
   \<and> c_languages ex_context = []
   \<and> map_of (to_neo4j_properties (MemoryNode_new (ex_memory None None (Some ex_context))))
        ''context_languages'' = Some PNull
   \<and> m_context (ex_memory None None None) = None
   \<and> map_of (to_neo4j_properties (MemoryNode_new (ex_memory None None None)))
        ''context_languages'' = None"
  using properties_omit_unset_optionals[of "ex_memory None None (Some ex_context)"]
    properties_omit_unset_optionals[of "ex_memory None None None"]
  by (simp add: ex_memory_def ex_context_def)

text \<open>
  The claim as stated fails: for a \<open>Memory\<close> whose context has an empty
  \<open>files_involved\<close>, the mapping holds the key \<open>context_files_involved\<close>, with a null
  value.
\<close>

theorem properties_empty_list_key_counterexample:
  "m_context (ex_memory None None (Some ex_context)) = Some ex_context
   \<and> c_files_involved ex_context = []
   \<and> ''context_files_involved''
        \<in> fst ` set (to_neo4j_properties (MemoryNode_new (ex_memory None None (Some ex_context))))
   \<and> map_of (to_neo4j_properties (MemoryNode_new (ex_memory None None (Some ex_context))))
        ''context_files_involved'' = Some PNull"
proof -
  have c: "m_context (ex_memory None None (Some ex_context)) = Some ex_context"
    by (simp add: ex_memory_def)
  have e: "c_files_involved ex_context = []" by (simp add: ex_context_def)
  have l: "map_of (to_neo4j_properties (MemoryNode_new (ex_memory None None (Some ex_context))))
        ''context_files_involved'' = Some PNull"
    using to_neo4j_context(2)[OF c] e by simp
  then have "''context_files_involved''
        \<in> fst ` set (to_neo4j_properties (MemoryNode_new (ex_memory None None (Some ex_context))))"
    by (metis map_of_eq_None_iff option.distinct(1))
  with c e l show ?thesis by simp
qed

text \<open>
  C3. Construction must refuse a required string that is empty after trimming. The code
  does so for the ids of a \<open>Relationship\<close> and for an empty title or content of a
  \<open>Memory\<close>, but not for a title of whitespace only: \<open>min_length=1\<close> is checked on the
  value as given, the validator trims afterwards, and the \<open>Memory\<close> is built with the
  empty title.
\<close>

theorem memory_blank_title_accepted:
  "\<exists>m. Memory_new ex_time ex_time ex_blank_args = Inr m \<and> m_title m = []"
  by (simp add: Memory_new_def ex_blank_args_def in_unit_def validate_text_fields_def
      strip_def is_space_def)


text \<open>
  C4. When no stored \<open>Memory\<close> has the id \<open>from_memory_id\<close>, or none has the id
  \<open>to_memory_id\<close>, \<open>create_relationship\<close> raises the \<open>RuntimeError\<close> and leaves the
  store as it was: no relationship is created.
\<close>

theorem create_relationship_requires_endpoints:
  assumes "\<not> list_ex (has_id from_memory_id) (g_nodes g)
           \<or> \<not> list_ex (has_id to_memory_id) (g_nodes g)"
  shows "create_relationship uuid4 t1 t2 g from_memory_id to_memory_id relationship_type
           properties
         = (Inl (RuntimeError (''Failed to create relationship between ''
                    @ from_memory_id @ '' and '' @ to_memory_id)), g)"
proof -
  have "filter (has_id from_memory_id) (g_nodes g) = []
        \<or> filter (has_id to_memory_id) (g_nodes g) = []"
    using assms by (auto simp: list_ex_iff filter_empty_conv)
  then have rows: "concat (map (\<lambda>f. map (\<lambda>t. (f, t)) (filter (has_id to_memory_id) (g_nodes g)))
                             (filter (has_id from_memory_id) (g_nodes g))) = []"
    by (elim disjE) simp_all
  have q: "run_create_query g from_memory_id to_memory_id ty props = ([], g)" for ty props
    unfolding run_create_query_def Let_def rows by simp
  have d: "\<exists>p. RelationshipProperties_new t1 t2 None None = Inr p"
    by (simp add: RelationshipProperties_new_def in_unit_def)
  show ?thesis
    unfolding create_relationship_def using d
    by (cases properties) (auto simp: q)
qed

theorem create_relationship_requires_endpoints_witness:
  "list_ex (has_id ''a'') (g_nodes \<lparr>g_nodes = [ex_node 1 ''a''], g_rels = []\<rparr>)
   \<and> \<not> list_ex (has_id ''zz'') (g_nodes \<lparr>g_nodes = [ex_node 1 ''a''], g_rels = []\<rparr>)
   \<and> create_relationship ''r-1'' ex_time ex_time \<lparr>g_nodes = [ex_node 1 ''a''], g_rels = []\<rparr>
        ''a'' ''zz'' SOLVES None
      = (Inl (RuntimeError ''Failed to create relationship between a and zz''),
         \<lparr>g_nodes = [ex_node 1 ''a''], g_rels = []\<rparr>)"
  using create_relationship_requires_endpoints
    [of "''a''" "\<lparr>g_nodes = [ex_node 1 ''a''], g_rels = []\<rparr>" "''zz''" "''r-1''" ex_time ex_time
      SOLVES None]
  by simp


text \<open>
  C8, as amended. For every valid \<open>Memory\<close> freshly constructed with no id and no
  \<open>usage_count\<close> argument, whose context, if any, holds only empty lists and an empty
  metadata map: \<open>store_memory\<close> with a generated id that no stored memory has yet
  returns that id, and \<open>get_memory\<close> of the id then returns an object whose
  \<open>created_at\<close> is the constructed object's, whose \<open>updated_at\<close> is the time of the
  store, and whose \<open>usage_count\<close> is 0.
\<close>

theorem store_then_get_fresh_memory:
  assumes "Memory_new t1 t2 a = Inr memory"
    and "a_id a = None" and "a_usage_count a = None"
    and "memory_valid memory" and "context_collections_empty memory"
    and "datetime_valid utcnow"
    and "\<not> list_ex (has_id uuid4) (g_nodes g)"
    and "store_memory uuid4 utcnow g memory = (r, g', memory')"
  shows "r = Inr (PStr uuid4)
     \<and> (\<exists>m. get_memory now g' uuid4 = Some m
            \<and> m_created_at m = m_created_at memory
            \<and> m_updated_at m = utcnow
            \<and> m_usage_count m = 0)"
proof -
  note I = Memory_new_Inr[OF assms(1)]
  have noid: "m_id memory = None" using I assms(2) by simp
  have uc: "m_usage_count memory = 0" using I assms(3) by simp
  note S = store_then_get_fresh[OF assms(4,5) noid assms(6,7), of now]
  have r: "r = Inr (PStr uuid4)" and g': "g' = fst (snd (store_memory uuid4 utcnow g memory))"
    using S assms(8) by simp_all
  have "get_memory now g' uuid4
      = Some (drop_empty_summary (memory\<lparr>m_id := Some uuid4, m_updated_at := utcnow\<rparr>))"
    using S g' by simp
  then show ?thesis using r uc by (simp add: drop_empty_summary_def)
qed

theorem store_then_get_fresh_memory_witness:
  "Memory_new ex_time ex_time ex_args = Inr (ex_memory None None None)
   \<and> a_id ex_args = None \<and> a_usage_count ex_args = None
   \<and> memory_valid (ex_memory None None None)
   \<and> context_collections_empty (ex_memory None None None)
   \<and> datetime_valid ex_later
   \<and> \<not> list_ex (has_id ''u-1'') (g_nodes ex_empty_graph)
   \<and> fst (store_memory ''u-1'' ex_later ex_empty_graph (ex_memory None None None))
       = Inr (PStr ''u-1'')
   \<and> (\<exists>m. get_memory ex_later
              (fst (snd (store_memory ''u-1'' ex_later ex_empty_graph (ex_memory None None None))))
              ''u-1'' = Some m
          \<and> m_created_at m = ex_time \<and> m_updated_at m = ex_later \<and> m_usage_count m = 0)"
proof -
  have v: "memory_valid (ex_memory None None None)" by (rule ex_memory_valid) simp_all
  have e: "context_collections_empty (ex_memory None None None)"
    by (simp add: context_collections_empty_def ex_memory_def)
  have f: "\<not> list_ex (has_id ''u-1'') (g_nodes ex_empty_graph)"
    by (simp add: ex_empty_graph_def)
  have a: "a_id ex_args = None" "a_usage_count ex_args = None" by (simp_all add: ex_args_def)
  have c: "m_created_at (ex_memory None None None) = ex_time" by (simp add: ex_memory_def)
  obtain r g' m' where s:
    "store_memory ''u-1'' ex_later ex_empty_graph (ex_memory None None None) = (r, g', m')"
    by (cases "store_memory ''u-1'' ex_later ex_empty_graph (ex_memory None None None)") auto
  note T = store_then_get_fresh_memory[OF ex_new a v e ex_time_valid(2) f s, of ex_later]
  show ?thesis
    using T ex_new a v e f c s by simp
qed

text \<open>
  The claim as stated fails: a memory constructed at one instant and stored at a later
  one is read back with \<open>created_at\<close> different from \<open>updated_at\<close>.
\<close>

theorem store_then_get_timestamps_counterexample:
  "Memory_new ex_time ex_time ex_args = Inr (ex_memory None None None)
   \<and> m_id (ex_memory None None None) = None
   \<and> fst (store_memory ''u-1'' ex_later ex_empty_graph (ex_memory None None None))
       = Inr (PStr ''u-1'')
   \<and> (\<exists>m. get_memory ex_later
              (fst (snd (store_memory ''u-1'' ex_later ex_empty_graph (ex_memory None None None))))
              ''u-1'' = Some m
          \<and> m_created_at m \<noteq> m_updated_at m)"
proof -
  have v: "memory_valid (ex_memory None None None)" by (rule ex_memory_valid) simp_all
  have e: "context_collections_empty (ex_memory None None None)"
    by (simp add: context_collections_empty_def ex_memory_def)
  have f: "\<not> list_ex (has_id ''u-1'') (g_nodes ex_empty_graph)"
    by (simp add: ex_empty_graph_def)
  have n: "m_id (ex_memory None None None) = None" by (simp add: ex_memory_def)
  have ne: "ex_time \<noteq> ex_later" by (simp add: ex_time_def ex_later_def)
  note S = store_then_get_fresh[OF v e n ex_time_valid(2) f, of ex_later]
  show ?thesis
    using S ex_new n ne by (simp add: drop_empty_summary_def ex_memory_def)
qed


text \<open>
  C9. \<open>store_memory\<close> changes its argument in place: after a call that returns, the
  caller's object has \<open>updated_at\<close> set to the time of the store and, when it had no
  id, \<open>id\<close> set to the generated id, which is also the id returned; an id that was
  there (and not empty) is kept; every other field is as it was.
\<close>

theorem store_memory_mutates_argument:
  assumes "store_memory uuid4 utcnow g memory = (Inr r, g', memory')"
  shows "m_updated_at memory' = utcnow
     \<and> (m_id memory = None \<longrightarrow> m_id memory' = Some uuid4 \<and> r = PStr uuid4)
     \<and> (\<forall>s. m_id memory = Some s \<and> s \<noteq> [] \<longrightarrow> m_id memory' = Some s \<and> r = PStr s)
     \<and> memory'\<lparr>m_id := m_id memory, m_updated_at := m_updated_at memory\<rparr> = memory"
proof -
  have m': "memory' = memory\<lparr>m_id := Some (store_id uuid4 memory), m_updated_at := utcnow\<rparr>"
    and r: "r = PStr (store_id uuid4 memory)"
    using assms unfolding store_memory_eq by simp_all
  show ?thesis
    unfolding m' r by (cases memory) (auto simp: store_id_def)
qed

theorem store_memory_mutates_argument_witness:
  "m_id (ex_memory None None None) = None
   \<and> fst (store_memory ''u-1'' ex_later ex_empty_graph (ex_memory None None None))
       = Inr (PStr ''u-1'')
   \<and> snd (snd (store_memory ''u-1'' ex_later ex_empty_graph (ex_memory None None None)))
       = (ex_memory None None None)\<lparr>m_id := Some ''u-1'', m_updated_at := ex_later\<rparr>"
proof -
  obtain g' m' where e: "store_memory ''u-1'' ex_later ex_empty_graph (ex_memory None None None)
      = (Inr (PStr ''u-1''), g', m')"
    by (simp add: store_memory_eq store_id_def ex_memory_def)
  have n: "m_id (ex_memory None None None) = None" by (simp add: ex_memory_def)
  have "m' = (ex_memory None None None)\<lparr>m_id := Some ''u-1'', m_updated_at := ex_later\<rparr>"
    using store_memory_mutates_argument[OF e] n
    by (cases m') (auto simp: ex_memory_def)
  then show ?thesis using e n by simp
qed


text \<open>
  C6, as amended. For every \<open>SearchQuery\<close> with \<open>min_importance\<close> set,
  \<open>search_memories\<close> returns no \<open>Memory\<close> whose importance is below it. The
  conditions are one for each populated field among \<open>query\<close>, \<open>memory_types\<close>,
  \<open>tags\<close>, \<open>project_path\<close>, \<open>min_importance\<close>, \<open>min_confidence\<close>,
  \<open>created_after\<close> and \<open>created_before\<close>; the fields \<open>languages\<close>, \<open>frameworks\<close> and
  \<open>min_effectiveness\<close> add none. Every memory returned is decoded from a stored node
  on which all the conditions hold. With none of the eight fields populated the
  \<open>WHERE\<close> clause is \<open>true\<close> and every stored node matches (all of them are returned
  when the limit allows).
\<close>

theorem search_filters_conjunctive:
  "(\<forall>x m. q_min_importance q = Some x \<and> m \<in> set (search_memories now g q)
       \<longrightarrow> x \<le> m_importance m)
   \<and> length (search_conditions q) = implemented_filter_fields q
   \<and> search_conditions (q\<lparr>q_languages := l, q_frameworks := f, q_min_effectiveness := e\<rparr>)
       = search_conditions q
   \<and> (\<forall>m \<in> set (search_memories now g q).
         \<exists>n \<in> set (g_nodes g). neo4j_to_memory now (n_props n) = Some m
            \<and> list_all (condition_holds (n_props n)) (search_conditions q))
   \<and> (implemented_filter_fields q = 0 \<longrightarrow>
         where_clause (search_conditions q) = ''true''
         \<and> (length (g_nodes g) \<le> q_limit q \<longrightarrow>
              set (run_search_query g (search_conditions q) (q_limit q)) = set (g_nodes g)))"
proof (intro conjI allI impI ballI)
  show "x \<le> m_importance m"
    if "q_min_importance q = Some x \<and> m \<in> set (search_memories now g q)" for x m
    using that search_min_importance by blast
  show "length (search_conditions q) = implemented_filter_fields q"
    by (rule length_search_conditions)
  show "search_conditions (q\<lparr>q_languages := l, q_frameworks := f, q_min_effectiveness := e\<rparr>)
       = search_conditions q"
    by (rule search_conditions_ignores)
  show "\<exists>n \<in> set (g_nodes g). neo4j_to_memory now (n_props n) = Some m
            \<and> list_all (condition_holds (n_props n)) (search_conditions q)"
    if "m \<in> set (search_memories now g q)" for m
    using search_memories_row[OF that] run_search_query_subset by blast
next
  assume z: "implemented_filter_fields q = 0"
  then have e: "search_conditions q = []"
    using length_search_conditions[of q] by simp
  show "where_clause (search_conditions q) = ''true''"
    using e by (simp add: where_clause_def)
  show "set (run_search_query g (search_conditions q) (q_limit q)) = set (g_nodes g)"
    if "length (g_nodes g) \<le> q_limit q"
    using that e by (simp add: run_search_query_no_conditions)
qed

theorem search_filters_conjunctive_witness:
  "q_min_importance (ex_query\<lparr>q_min_importance := Some 0.9\<rparr>) = Some 0.9
   \<and> search_memories ex_later ex_search_graph (ex_query\<lparr>q_min_importance := Some 0.9\<rparr>)
       = [ex_memory_imp ''b'' 0.95]
   \<and> 0.9 \<le> m_importance (ex_memory_imp ''b'' 0.95)
   \<and> implemented_filter_fields (ex_query\<lparr>q_min_importance := Some 0.9\<rparr>) = 1
   \<and> search_conditions (ex_query\<lparr>q_min_importance := Some 0.9\<rparr>) = [MinImportance 0.9]
   \<and> implemented_filter_fields ex_query = 0
   \<and> where_clause (search_conditions ex_query) = ''true''
   \<and> length (g_nodes ex_search_graph) \<le> q_limit ex_query
   \<and> set (run_search_query ex_search_graph (search_conditions ex_query) (q_limit ex_query))
       = set (g_nodes ex_search_graph)"
proof -
  have c: "search_conditions (ex_query\<lparr>q_min_importance := Some 0.9\<rparr>) = [MinImportance 0.9]"
    by (simp add: search_conditions_def ex_query_def)
  have r: "run_search_query ex_search_graph [MinImportance 0.9] 20
      = [mem_node 2 (ex_memory_imp ''b'' 0.95)]"
    by (simp add: run_search_query_def ex_search_graph_def cypher_num_def order_by_desc_def)
  have s: "search_memories ex_later ex_search_graph (ex_query\<lparr>q_min_importance := Some 0.9\<rparr>)
       = [ex_memory_imp ''b'' 0.95]"
    unfolding search_memories_def c
    by (simp add: ex_query_def r decode_ex_memory_imp in_unit_def List.map_filter_simps)
  have z: "implemented_filter_fields ex_query = 0"
    by (simp add: implemented_filter_fields_def ex_query_def)
  have l: "length (g_nodes ex_search_graph) \<le> q_limit ex_query"
    by (simp add: ex_search_graph_def ex_query_def)
  have q: "q_min_importance (ex_query\<lparr>q_min_importance := Some 0.9\<rparr>) = Some 0.9"
    by simp
  have i1: "implemented_filter_fields (ex_query\<lparr>q_min_importance := Some 0.9\<rparr>) = 1"
    by (simp add: implemented_filter_fields_def ex_query_def)
  note T1 = search_filters_conjunctive[of "ex_query\<lparr>q_min_importance := Some 0.9\<rparr>"
      ex_later ex_search_graph]
  have "ex_memory_imp ''b'' 0.95
      \<in> set (search_memories ex_later ex_search_graph (ex_query\<lparr>q_min_importance := Some 0.9\<rparr>))"
    unfolding s by simp
  with T1 q have imp: "0.9 \<le> m_importance (ex_memory_imp ''b'' 0.95)" by blast
  note T0 = search_filters_conjunctive[of ex_query ex_later ex_search_graph]
  from T0 z l have w: "where_clause (search_conditions ex_query) = ''true''"
    and a: "set (run_search_query ex_search_graph (search_conditions ex_query) (q_limit ex_query))
       = set (g_nodes ex_search_graph)"
    by blast+
  show ?thesis
    using q s imp i1 c z w l a by (intro conjI)
qed

text \<open>
  The claim as stated fails: a query whose only populated filter is
  \<open>min_effectiveness = 0.9\<close> has no condition at all, and returns a memory whose
  effectiveness is unset.
\<close>

theorem search_ignores_min_effectiveness_counterexample:
  "q_min_effectiveness (ex_query\<lparr>q_min_effectiveness := Some 0.9\<rparr>) = Some 0.9
   \<and> populated_filter_fields (ex_query\<lparr>q_min_effectiveness := Some 0.9\<rparr>) = 1
   \<and> search_conditions (ex_query\<lparr>q_min_effectiveness := Some 0.9\<rparr>) = []
   \<and> search_memories ex_later \<lparr>g_nodes = [mem_node 1 (ex_memory_imp ''a'' 0.5)], g_rels = []\<rparr>
        (ex_query\<lparr>q_min_effectiveness := Some 0.9\<rparr>) = [ex_memory_imp ''a'' 0.5]
   \<and> m_effectiveness (ex_memory_imp ''a'' 0.5) = None"
proof -
  have c: "search_conditions (ex_query\<lparr>q_min_effectiveness := Some 0.9\<rparr>) = []"
    by (simp add: search_conditions_def ex_query_def)
  have s: "search_memories ex_later \<lparr>g_nodes = [mem_node 1 (ex_memory_imp ''a'' 0.5)], g_rels = []\<rparr>
        (ex_query\<lparr>q_min_effectiveness := Some 0.9\<rparr>) = [ex_memory_imp ''a'' 0.5]"
    unfolding search_memories_def c
    by (simp add: ex_query_def run_search_query_def order_by_desc_def decode_ex_memory_imp
        in_unit_def List.map_filter_simps)
  show ?thesis
    using c s
    by (simp add: populated_filter_fields_def ex_query_def ex_memory_imp_def ex_memory_def)
qed

end
